theory Spec2Isabelle
  imports Main "HOL-Library.Word" "HOL-Library.Sublist"
begin

section \<open>Metric samples and descriptors (cmd/vgpu-monitor/metrics.go)\<close>

text \<open>
  A sample is what \<^verbatim>\<open>prometheus.MustNewConstMetric(desc, valueType, float64(v), labels...)\<close>
  hands to the channel. The field \<open>svalue\<close> is the integer \<open>v\<close> that the source converts
  with \<^verbatim>\<open>float64(...)\<close>; the conversion itself is not modelled. Every call of the source
  passes as many label values as its descriptor declares (lemma \<open>Collect_label_arity\<close>
  below), so the arity check of the library never fires; label values are taken to be
  valid UTF-8.
\<close>

datatype value_type = GaugeValue | CounterValue

record desc =
  fqName :: string
  helpText :: string
  variableLabels :: "string list"

record sample =
  sdesc :: desc
  valueType :: value_type
  svalue :: int
  labelValues :: "string list"

definition NewDesc :: "string \<Rightarrow> string \<Rightarrow> string list \<Rightarrow> desc" where
  "NewDesc n h ls = \<lparr>fqName = n, helpText = h, variableLabels = ls\<rparr>"

definition MustNewConstMetric :: "desc \<Rightarrow> value_type \<Rightarrow> int \<Rightarrow> string list \<Rightarrow> sample" where
  "MustNewConstMetric d vt v lvs = \<lparr>sdesc = d, valueType = vt, svalue = v, labelValues = lvs\<rparr>"

definition hostGPUdesc :: desc where
  "hostGPUdesc = NewDesc ''HostGPUMemoryUsage'' ''GPU device memory usage''
     [''deviceidx'', ''deviceuuid'']"

definition hostGPUUtilizationdesc :: desc where
  "hostGPUUtilizationdesc = NewDesc ''HostCoreUtilization'' ''GPU core utilization''
     [''deviceidx'', ''deviceuuid'']"

definition ctrvGPUdesc :: desc where
  "ctrvGPUdesc = NewDesc ''vGPU_device_memory_usage_in_bytes'' ''vGPU device usage''
     [''podnamespace'', ''podname'', ''ctrname'', ''vdeviceid'', ''deviceuuid'']"

definition ctrvGPUlimitdesc :: desc where
  "ctrvGPUlimitdesc = NewDesc ''vGPU_device_memory_limit_in_bytes'' ''vGPU device limit''
     [''podnamespace'', ''podname'', ''ctrname'', ''vdeviceid'', ''deviceuuid'']"

definition ctrDeviceMemorydesc :: desc where
  "ctrDeviceMemorydesc = NewDesc ''Device_memory_desc_of_container''
     ''Container device meory description''
     [''podnamespace'', ''podname'', ''ctrname'', ''vdeviceid'', ''deviceuuid'',
      ''context'', ''module'', ''data'', ''offset'']"

definition ctrDeviceUtilizationdesc :: desc where
  "ctrDeviceUtilizationdesc = NewDesc ''Device_utilization_desc_of_container''
     ''Container device utilization description''
     [''podnamespace'', ''podname'', ''ctrname'', ''vdeviceid'', ''deviceuuid'']"

definition ctrDeviceLastKernelDesc :: desc where
  "ctrDeviceLastKernelDesc = NewDesc ''Device_last_kernel_of_container''
     ''Container device last kernel description''
     [''podnamespace'', ''podname'', ''ctrname'', ''vdeviceid'', ''deviceuuid'']"

section \<open>fmt.Sprint on integers\<close>

text \<open>\<^verbatim>\<open>fmt.Sprint\<close> of a non-negative integer is its decimal numeral without leading zeros.\<close>

definition digit :: "nat \<Rightarrow> char" where
  "digit n = ''0123456789'' ! n"

fun Sprint :: "nat \<Rightarrow> string" where
  "Sprint n = (if n < 10 then [digit n] else Sprint (n div 10) @ [digit (n mod 10)])"

declare Sprint.simps [simp del]

text \<open>The number a decimal numeral stands for.\<close>

definition decimal_value :: "string \<Rightarrow> nat" where
  "decimal_value s = foldl (\<lambda>a c. 10 * a + (of_char c - 48)) 0 s"

section \<open>The collaborators, as Collect reads them\<close>

text \<open>
  The NVML status code: the source only compares it with \<^verbatim>\<open>nvml.SUCCESS\<close>.
\<close>

datatype nvml_return = SUCCESS | ERROR nat

text \<open>
  What the driver answers for one device index: the status of
  \<^verbatim>\<open>DeviceGetHandleByIndex\<close>, and value and status of \<^verbatim>\<open>GetMemoryInfo\<close> (the field
  \<^verbatim>\<open>Used\<close>, a uint64), of \<^verbatim>\<open>GetUUID\<close> and of \<^verbatim>\<open>GetUtilizationRates\<close> (the field
  \<^verbatim>\<open>Gpu\<close>, a uint32). A Go call returns its value also when the status is an error; the
  source decides what it does with it.
\<close>

record device_reads =
  handle_ret :: nvml_return
  memory_Used :: "64 word"
  memory_ret :: nvml_return
  uuid_val :: string
  uuid_ret :: nvml_return
  util_Gpu :: "32 word"
  util_ret :: nvml_return

text \<open>
  Modelled from the spec: the usage interface behind \<^verbatim>\<open>c.Info\<close> (package
  pkg/monitor/nvidia) is not part of the source at hand; its accessors are taken as they
  are called, with the result types of the spec's data model (byte counts uint64, SM
  utilization uint32, last kernel time int64 in Unix seconds, device number int). A 64-bit
  signed value is a \<open>64 word\<close> read with \<open>sint\<close>.
\<close>

record usage_info =
  DeviceNum :: int
  DeviceUUID :: "nat \<Rightarrow> string"
  DeviceMemoryTotal :: "nat \<Rightarrow> 64 word"
  DeviceMemoryLimit :: "nat \<Rightarrow> 64 word"
  DeviceMemoryContextSize :: "nat \<Rightarrow> 64 word"
  DeviceMemoryModuleSize :: "nat \<Rightarrow> 64 word"
  DeviceMemoryBufferSize :: "nat \<Rightarrow> 64 word"
  DeviceMemoryOffset :: "nat \<Rightarrow> 64 word"
  DeviceSmUtil :: "nat \<Rightarrow> 32 word"
  LastKernelTime :: "64 word"

text \<open>One entry of \<^verbatim>\<open>containerLister.ListContainers()\<close>; \<open>Info\<close> may be nil.\<close>

record container_usage =
  PodUID :: string
  ContainerName :: string
  Info :: "usage_info option"

text \<open>The fields of a \<^verbatim>\<open>v1.Pod\<close> that Collect reads.\<close>

record pod =
  UID :: string
  Name :: string
  Namespace :: string
  Labels :: "string \<rightharpoonup> string"
  SpecContainers :: "string list"

text \<open>
  Everything one call of Collect reads from outside: the error of
  \<^verbatim>\<open>containerLister.Update()\<close>, the answers of NVML, the result pair of
  \<^verbatim>\<open>PodLister.List\<close>, the clock and the record list of the container lister.
\<close>

record collector_env =
  Update_err :: "string option"
  Init_ret :: nvml_return
  DeviceGetCount :: "int \<times> nvml_return"
  Device :: "nat \<Rightarrow> device_reads"
  PodList :: "pod list \<times> string option"
  nowSec :: "64 word"
  ListContainers :: "container_usage list"

section \<open>Emission with panics\<close>

text \<open>
  A run of Collect sends samples to the channel one by one and either returns or panics;
  the samples sent before a panic stay sent.
\<close>

datatype status = Returned | Panicked

type_synonym emitted = "sample list \<times> status"

definition skip :: emitted where
  "skip = ([], Returned)"

definition then_emit :: "emitted \<Rightarrow> emitted \<Rightarrow> emitted" where
  "then_emit a b = (case snd a of Panicked \<Rightarrow> a | Returned \<Rightarrow> (fst a @ fst b, snd b))"

fun for_each :: "'a list \<Rightarrow> ('a \<Rightarrow> emitted) \<Rightarrow> emitted" where
  "for_each [] body = skip"
| "for_each (x # xs) body = then_emit (body x) (for_each xs body)"

section \<open>Collect\<close>

text \<open>
  Logging (\<^verbatim>\<open>klog\<close>) and the \<^verbatim>\<open>fmt.Println\<close> traces do not touch the channel and are
  left out; so is the map \<^verbatim>\<open>podlabels\<close> of lines 227 to 232, which is filled and never
  read.

  The body of the device loop (source lines 155 to 188) for device index \<open>ii\<close>. A failed
  \<^verbatim>\<open>DeviceGetHandleByIndex\<close> is logged and the three reads are made on the handle it
  returned all the same.
\<close>

definition device_samples :: "nat \<Rightarrow> device_reads \<Rightarrow> sample list" where
  "device_samples ii hdev =
     (let memoryUsed = (if memory_ret hdev = SUCCESS then sint (memory_Used hdev) else 0);
          uuid = uuid_val hdev
      in (if uuid_ret hdev \<noteq> SUCCESS then []
          else [MustNewConstMetric hostGPUdesc GaugeValue memoryUsed [Sprint ii, uuid]]) @
         (if util_ret hdev \<noteq> SUCCESS then []
          else [MustNewConstMetric hostGPUUtilizationdesc GaugeValue (uint (util_Gpu hdev))
                  [Sprint ii, uuid]]))"

text \<open>The device enumeration (source lines 150 to 191).\<close>

definition host_samples :: "collector_env \<Rightarrow> sample list" where
  "host_samples env =
     (case DeviceGetCount env of (devnum, nvret) \<Rightarrow>
        if nvret \<noteq> SUCCESS then []
        else concat (map (\<lambda>ii. device_samples ii (Device env ii)) [0..<nat devnum]))"

text \<open>
  The body of the slot loop (source lines 234 to 281). The slice \<^verbatim>\<open>DeviceUUID(i)[0:40]\<close>
  panics when the string has fewer than 40 bytes, before anything is sent for the slot.
\<close>

definition slot_samples :: "64 word \<Rightarrow> pod \<Rightarrow> string \<Rightarrow> usage_info \<Rightarrow> nat \<Rightarrow> emitted" where
  "slot_samples now p ctrName info i =
     (if length (DeviceUUID info i) < 40 then ([], Panicked)
      else
        (let uuid = take 40 (DeviceUUID info i);
             memoryTotal = DeviceMemoryTotal info i;
             memoryLimit = DeviceMemoryLimit info i;
             memoryContextSize = DeviceMemoryContextSize info i;
             memoryModuleSize = DeviceMemoryModuleSize info i;
             memoryBufferSize = DeviceMemoryBufferSize info i;
             memoryOffset = DeviceMemoryOffset info i;
             smUtil = DeviceSmUtil info i;
             lastKernelTime = LastKernelTime info;
             base = [Namespace p, Name p, ctrName, Sprint i, uuid]
         in ([MustNewConstMetric ctrvGPUdesc GaugeValue (uint memoryTotal) base,
              MustNewConstMetric ctrvGPUlimitdesc GaugeValue (uint memoryLimit) base,
              MustNewConstMetric ctrDeviceMemorydesc CounterValue (uint memoryTotal)
                (base @ [Sprint (unat memoryContextSize), Sprint (unat memoryModuleSize),
                         Sprint (unat memoryBufferSize), Sprint (unat memoryOffset)]),
              MustNewConstMetric ctrDeviceUtilizationdesc GaugeValue (uint smUtil) base] @
             (if 0 < sint lastKernelTime then
                (let lastSec = now - lastKernelTime;
                     lastSec = (if sint lastSec < 0 then 0 else lastSec)
                 in [MustNewConstMetric ctrDeviceLastKernelDesc GaugeValue (sint lastSec) base])
              else []),
             Returned)))"

text \<open>The loop over \<^verbatim>\<open>pod.Spec.Containers\<close> for one pod and one record (lines 217 to 283).\<close>

definition record_samples :: "64 word \<Rightarrow> pod \<Rightarrow> container_usage \<Rightarrow> usage_info \<Rightarrow> emitted" where
  "record_samples now p c info =
     for_each (SpecContainers p) (\<lambda>ctr.
       if ctr \<noteq> ContainerName c then skip
       else for_each [0..<nat (DeviceNum info)] (slot_samples now p (ContainerName c) info))"

text \<open>The loop over the records for one pod (lines 201 to 284).\<close>

definition pod_samples :: "64 word \<Rightarrow> container_usage list \<Rightarrow> pod \<Rightarrow> emitted" where
  "pod_samples now containers p =
     for_each containers (\<lambda>c.
       case Info c of
         None \<Rightarrow> skip
       | Some info \<Rightarrow> if UID p \<noteq> PodUID c then skip else record_samples now p c info)"

definition container_samples :: "64 word \<Rightarrow> pod list \<Rightarrow> container_usage list \<Rightarrow> emitted" where
  "container_samples now pods containers = for_each pods (pod_samples now containers)"

text \<open>
  Collect. The errors of \<^verbatim>\<open>Update\<close>, \<^verbatim>\<open>Init\<close>, \<^verbatim>\<open>DeviceGetHandleByIndex\<close> and
  \<^verbatim>\<open>PodLister.List\<close> are logged and nothing else: the source goes on with the values
  the calls returned.
\<close>

definition Collect_metrics :: "collector_env \<Rightarrow> emitted" where
  "Collect_metrics env =
     then_emit (host_samples env, Returned)
       (container_samples (nowSec env) (fst (PodList env)) (ListContainers env))"

section \<open>Reading the output\<close>

text \<open>The value a sample carries for a label name of its descriptor.\<close>

definition label_of :: "sample \<Rightarrow> string \<Rightarrow> string option" where
  "label_of s n = map_of (zip (variableLabels (sdesc s)) (labelValues s)) n"

text \<open>The samples of the five container-scoped metrics.\<close>

definition per_container :: "sample \<Rightarrow> bool" where
  "per_container s \<longleftrightarrow>
     sdesc s \<in> {ctrvGPUdesc, ctrvGPUlimitdesc, ctrDeviceMemorydesc, ctrDeviceUtilizationdesc,
                 ctrDeviceLastKernelDesc}"

text \<open>
  A matched device slot: pod \<open>p\<close> is in the pod list, record \<open>c\<close> is in the record list
  with usage info \<open>info\<close>, both keys agree, and \<open>i\<close> is one of the record's slots.
\<close>

definition matched_slot ::
  "collector_env \<Rightarrow> pod \<Rightarrow> container_usage \<Rightarrow> usage_info \<Rightarrow> nat \<Rightarrow> bool" where
  "matched_slot env p c info i \<longleftrightarrow>
     p \<in> set (fst (PodList env)) \<and> c \<in> set (ListContainers env) \<and> Info c = Some info \<and>
     UID p = PodUID c \<and> ContainerName c \<in> set (SpecContainers p) \<and> int i < DeviceNum info"

text \<open>A pod with a usage record for one of its containers; a record with such a pod.\<close>

definition has_record :: "container_usage list \<Rightarrow> pod \<Rightarrow> bool" where
  "has_record cs p \<longleftrightarrow>
     list_ex (\<lambda>c. PodUID c = UID p \<and> ContainerName c \<in> set (SpecContainers p)) cs"

definition has_pod :: "pod list \<Rightarrow> container_usage \<Rightarrow> bool" where
  "has_pod pods c \<longleftrightarrow>
     list_ex (\<lambda>p. UID p = PodUID c \<and> ContainerName c \<in> set (SpecContainers p)) pods"

text \<open>
  The samples of metric \<open>d\<close> in an output whose \<open>deviceidx\<close> label is the numeral of
  \<open>ii\<close>: what was sent for that device.
\<close>

definition device_metric :: "desc \<Rightarrow> nat \<Rightarrow> sample list \<Rightarrow> sample list" where
  "device_metric d ii out =
     filter (\<lambda>s. sdesc s = d \<and> label_of s ''deviceidx'' = Some (Sprint ii)) out"

text \<open>
  The same environment with other errors from \<^verbatim>\<open>Update\<close>, \<^verbatim>\<open>Init\<close>,
  \<^verbatim>\<open>PodLister.List\<close> and \<^verbatim>\<open>DeviceGetHandleByIndex\<close>; the values the calls return
  stay as they are.
\<close>

definition with_errors ::
  "collector_env \<Rightarrow> string option \<Rightarrow> nvml_return \<Rightarrow> string option \<Rightarrow> (nat \<Rightarrow> nvml_return)
     \<Rightarrow> collector_env" where
  "with_errors env e r e' h =
     env\<lparr>Update_err := e, Init_ret := r, PodList := (fst (PodList env), e'),
         Device := (\<lambda>ii. (Device env ii)\<lparr>handle_ret := h ii\<rparr>)\<rparr>"

section \<open>Example inputs\<close>

definition scenario_uuid :: string where
  "scenario_uuid = ''GPU-0123456789abcdef0123456789abcdef0123''"

definition scenario_info :: "string \<Rightarrow> 64 word \<Rightarrow> usage_info" where
  "scenario_info u t =
     \<lparr>DeviceNum = 1, DeviceUUID = (\<lambda>_. u), DeviceMemoryTotal = (\<lambda>_. 1024),
      DeviceMemoryLimit = (\<lambda>_. 2048), DeviceMemoryContextSize = (\<lambda>_. 16),
      DeviceMemoryModuleSize = (\<lambda>_. 32), DeviceMemoryBufferSize = (\<lambda>_. 64),
      DeviceMemoryOffset = (\<lambda>_. 0), DeviceSmUtil = (\<lambda>_. 55), LastKernelTime = t\<rparr>"

definition scenario_pod :: pod where
  "scenario_pod =
     \<lparr>UID = ''p1'', Name = ''pod-a'', Namespace = ''ns'', Labels = Map.empty,
      SpecContainers = [''c1'']\<rparr>"

definition scenario_record :: "string \<Rightarrow> 64 word \<Rightarrow> container_usage" where
  "scenario_record u t = \<lparr>PodUID = ''p1'', ContainerName = ''c1'', Info = Some (scenario_info u t)\<rparr>"

definition scenario_device :: "nvml_return \<Rightarrow> nvml_return \<Rightarrow> nvml_return \<Rightarrow> device_reads" where
  "scenario_device m u t =
     \<lparr>handle_ret = SUCCESS, memory_Used = 4096, memory_ret = m,
      uuid_val = (if u = SUCCESS then ''GPU-aaaa'' else []), uuid_ret = u,
      util_Gpu = 30, util_ret = t\<rparr>"

definition scenario_env ::
  "(nat \<Rightarrow> device_reads) \<Rightarrow> pod list \<Rightarrow> container_usage list \<Rightarrow> collector_env" where
  "scenario_env dev pods cs =
     \<lparr>Update_err = None, Init_ret = SUCCESS, DeviceGetCount = (1, SUCCESS), Device = dev,
      PodList = (pods, None), nowSec = 1700000000, ListContainers = cs\<rparr>"

definition scenario_dev :: "nat \<Rightarrow> device_reads" where
  "scenario_dev = (\<lambda>_. scenario_device SUCCESS SUCCESS SUCCESS)"

definition orphan_pod :: pod where
  "orphan_pod =
     \<lparr>UID = ''p2'', Name = ''pod-b'', Namespace = ''ns'', Labels = Map.empty,
      SpecContainers = [''c1'']\<rparr>"

definition orphan_record :: container_usage where
  "orphan_record =
     \<lparr>PodUID = ''p3'', ContainerName = ''c1'', Info = Some (scenario_info scenario_uuid 0)\<rparr>"

section \<open>The order of emission, as the specification words it\<close>

text \<open>
  Device after device in ascending index; then pod after pod in the order of the pod
  list, for each pod the records in the order of the record list, for each matching
  record the pod's containers of that name, and for each of them the slots in ascending
  index.
\<close>

definition ordered_host :: "collector_env \<Rightarrow> sample list" where
  "ordered_host env =
     (if snd (DeviceGetCount env) = SUCCESS
      then [s. ii \<leftarrow> [0..<nat (fst (DeviceGetCount env))], s \<leftarrow> device_samples ii (Device env ii)]
      else [])"

definition ordered_container :: "64 word \<Rightarrow> pod list \<Rightarrow> container_usage list \<Rightarrow> sample list" where
  "ordered_container now pods cs =
     [s. p \<leftarrow> pods, c \<leftarrow> cs, info \<leftarrow> (case Info c of None \<Rightarrow> [] | Some info \<Rightarrow> [info]),
         UID p = PodUID c, ctr \<leftarrow> SpecContainers p, ctr = ContainerName c,
         i \<leftarrow> [0..<nat (DeviceNum info)],
         s \<leftarrow> fst (slot_samples now p (ContainerName c) info i)]"

text \<open>
  A run refines a list of samples when what it sent is a prefix of the list, and the
  whole list when the run returned.
\<close>

definition refines :: "emitted \<Rightarrow> sample list \<Rightarrow> bool" where
  "refines e xs \<longleftrightarrow> prefix (fst e) xs \<and> (snd e = Returned \<longrightarrow> fst e = xs)"

text \<open>What is needed of a sample to see where in the order it belongs.\<close>

definition order_key :: "sample \<Rightarrow> string option \<times> string option \<times> string option" where
  "order_key s = (label_of s ''deviceidx'', label_of s ''podname'', label_of s ''vdeviceid'')"

definition second_record :: container_usage where
  "second_record =
     \<lparr>PodUID = ''p2'', ContainerName = ''c1'', Info = Some (scenario_info scenario_uuid 0)\<rparr>"

definition two_slot_record :: container_usage where
  "two_slot_record =
     \<lparr>PodUID = ''p1'', ContainerName = ''c1'',
      Info = Some ((scenario_info scenario_uuid 0)\<lparr>DeviceNum := 2\<rparr>)\<rparr>"

definition order_env :: collector_env where
  "order_env =
     (scenario_env scenario_dev [orphan_pod, scenario_pod] [two_slot_record, second_record])
       \<lparr>DeviceGetCount := (2, SUCCESS)\<rparr>"

section \<open>Basic facts\<close>

lemmas desc_defs =
  NewDesc_def hostGPUdesc_def hostGPUUtilizationdesc_def ctrvGPUdesc_def ctrvGPUlimitdesc_def
  ctrDeviceMemorydesc_def ctrDeviceUtilizationdesc_def ctrDeviceLastKernelDesc_def

lemmas scenario_defs =
  scenario_uuid_def scenario_info_def scenario_pod_def scenario_record_def scenario_device_def
  scenario_env_def

subsection \<open>Decimal numerals\<close>

lemma digit_inj: "a < 10 \<Longrightarrow> b < 10 \<Longrightarrow> digit a = digit b \<Longrightarrow> a = b"
proof -
  assume a: "a < 10" and b: "b < 10" and e: "digit a = digit b"
  have d: "distinct ''0123456789''" by simp
  have "(''0123456789'' ! a = ''0123456789'' ! b) = (a = b)"
    using a b by (intro nth_eq_iff_index_eq [OF d]) simp_all
  with e show ?thesis by (simp add: digit_def)
qed

lemma Sprint_not_Nil [simp]: "Sprint n \<noteq> []" "[] \<noteq> Sprint n"
  by (subst Sprint.simps, simp)+

lemma Sprint_inj: "Sprint m = Sprint n \<Longrightarrow> m = n"
proof (induction m arbitrary: n rule: Sprint.induct)
  case (1 m)
  show ?case
  proof (cases "m < 10")
    case True
    show ?thesis
    proof (cases "n < 10")
      case True
      with \<open>m < 10\<close> "1.prems" show ?thesis
        by (simp add: Sprint.simps [of m] Sprint.simps [of n] digit_inj)
    next
      case False
      with \<open>m < 10\<close> "1.prems" show ?thesis
        by (simp add: Sprint.simps [of m] Sprint.simps [of n])
    qed
  next
    case False
    show ?thesis
    proof (cases "n < 10")
      case True
      with \<open>\<not> m < 10\<close> "1.prems" show ?thesis
        by (simp add: Sprint.simps [of m] Sprint.simps [of n])
    next
      case nb: False
      from False nb "1.prems" have e: "Sprint (m div 10) = Sprint (n div 10)"
        and d: "digit (m mod 10) = digit (n mod 10)"
        by (simp_all add: Sprint.simps [of m] Sprint.simps [of n])
      from "1.IH" [OF False e] have q: "m div 10 = n div 10" .
      from d have r: "m mod 10 = n mod 10" by (intro digit_inj) simp_all
      from q r show ?thesis by (metis div_mult_mod_eq)
    qed
  qed
qed

lemma Sprint_0 [simp]: "Sprint 0 = ''0''"
  by (simp add: Sprint.simps digit_def)

lemma of_char_digit: "k < 10 \<Longrightarrow> (of_char (digit k) :: nat) = 48 + k"
proof -
  assume "k < 10"
  then have "k \<in> {0, 1, 2, 3, 4, 5, 6, 7, 8, 9}" by auto
  then show ?thesis by (auto simp: digit_def)
qed

lemma decimal_value_Sprint: "decimal_value (Sprint n) = n"
proof (induction n rule: Sprint.induct)
  case (1 n)
  show ?case
  proof (cases "n < 10")
    case True
    then show ?thesis by (simp add: Sprint.simps [of n] decimal_value_def of_char_digit)
  next
    case False
    with "1.IH" have "decimal_value (Sprint (n div 10)) = n div 10" by simp
    with False show ?thesis
      by (simp add: Sprint.simps [of n] decimal_value_def of_char_digit)
  qed
qed

subsection \<open>Sequencing\<close>

lemma then_emit_skip_left [simp]: "then_emit skip b = b"
  by (simp add: then_emit_def skip_def)

lemma then_emit_skip_right [simp]: "then_emit a skip = a"
  by (cases a) (simp add: then_emit_def skip_def split: status.splits)

lemma then_emit_Returned [simp]: "then_emit (xs, Returned) b = (xs @ fst b, snd b)"
  by (simp add: then_emit_def)

lemma then_emit_Panicked [simp]: "then_emit (xs, Panicked) b = (xs, Panicked)"
  by (simp add: then_emit_def)

lemma then_emit_assoc: "then_emit (then_emit a b) c = then_emit a (then_emit b c)"
  by (cases a; cases b; cases c) (simp add: then_emit_def split: status.splits)

lemma snd_then_emit: "snd (then_emit a b) = Returned \<longleftrightarrow> snd a = Returned \<and> snd b = Returned"
  by (simp add: then_emit_def split: status.splits)

lemma fst_then_emit_Returned: "snd a = Returned \<Longrightarrow> fst (then_emit a b) = fst a @ fst b"
  by (simp add: then_emit_def)

lemma for_each_append: "for_each (xs @ ys) body = then_emit (for_each xs body) (for_each ys body)"
  by (induction xs) (simp_all add: then_emit_assoc)

lemma for_each_cong: "(\<And>x. x \<in> set xs \<Longrightarrow> f x = g x) \<Longrightarrow> for_each xs f = for_each xs g"
  by (induction xs) simp_all

lemma for_each_all_skip: "(\<And>x. x \<in> set xs \<Longrightarrow> body x = skip) \<Longrightarrow> for_each xs body = skip"
  by (induction xs) simp_all

lemma for_each_filter:
  "(\<And>x. x \<in> set xs \<Longrightarrow> \<not> P x \<Longrightarrow> body x = skip) \<Longrightarrow>
     for_each (filter P xs) body = for_each xs body"
  by (induction xs) simp_all

lemma snd_for_each:
  "snd (for_each xs body) = Returned \<longleftrightarrow> (\<forall>x\<in>set xs. snd (body x) = Returned)"
  by (induction xs) (simp_all add: snd_then_emit skip_def)

lemma fst_for_each_Returned:
  "snd (for_each xs body) = Returned \<Longrightarrow>
     fst (for_each xs body) = concat (map (\<lambda>x. fst (body x)) xs)"
  by (induction xs) (simp_all add: snd_then_emit fst_then_emit_Returned skip_def)

lemma fst_for_each_prefix:
  "prefix (fst (for_each xs body)) (concat (map (\<lambda>x. fst (body x)) xs))"
proof (induction xs)
  case Nil
  show ?case by (simp add: skip_def)
next
  case (Cons x xs)
  show ?case
  proof (cases "snd (body x)")
    case Returned
    with Cons show ?thesis by (simp add: then_emit_def)
  next
    case Panicked
    then show ?thesis by (simp add: then_emit_def)
  qed
qed

lemma for_each_mem:
  "s \<in> set (fst (for_each xs body)) \<Longrightarrow> \<exists>x\<in>set xs. s \<in> set (fst (body x))"
  using set_mono_prefix [OF fst_for_each_prefix [of xs body]] by auto

lemma for_each_mem_Returned:
  "snd (for_each xs body) = Returned \<Longrightarrow> x \<in> set xs \<Longrightarrow>
     set (fst (body x)) \<subseteq> set (fst (for_each xs body))"
  by (auto simp: fst_for_each_Returned)

subsection \<open>The shape of Collect\<close>

lemma Collect_fst:
  "fst (Collect_metrics env) =
     host_samples env @ fst (container_samples (nowSec env) (fst (PodList env)) (ListContainers env))"
  by (simp add: Collect_metrics_def)

lemma Collect_snd:
  "snd (Collect_metrics env) =
     snd (container_samples (nowSec env) (fst (PodList env)) (ListContainers env))"
  by (simp add: Collect_metrics_def)

lemma host_samples_upd [simp]:
  "host_samples (env\<lparr>ListContainers := cs\<rparr>) = host_samples env"
  "host_samples (env\<lparr>PodList := pl\<rparr>) = host_samples env"
  "host_samples (env\<lparr>Update_err := e\<rparr>) = host_samples env"
  "host_samples (env\<lparr>Init_ret := r\<rparr>) = host_samples env"
  "host_samples (env\<lparr>nowSec := t\<rparr>) = host_samples env"
  by (simp_all add: host_samples_def split: prod.splits)

lemma pod_samples_nil_info:
  "Info c = None \<Longrightarrow> pod_samples now (cs1 @ c # cs2) = pod_samples now (cs1 @ cs2)"
  by (rule ext) (simp add: pod_samples_def for_each_append)

lemma slot_samples_Returned:
  "snd (slot_samples now p ctrName info i) = Returned \<longleftrightarrow> 40 \<le> length (DeviceUUID info i)"
  by (simp add: slot_samples_def Let_def)

lemma slot_samples_Panicked:
  "length (DeviceUUID info i) < 40 \<Longrightarrow> slot_samples now p ctrName info i = ([], Panicked)"
  by (simp add: slot_samples_def)

lemma record_samples_Returned:
  "snd (record_samples now p c info) = Returned \<longleftrightarrow>
     (ContainerName c \<in> set (SpecContainers p) \<longrightarrow>
        (\<forall>i. int i < DeviceNum info \<longrightarrow> 40 \<le> length (DeviceUUID info i)))"
  by (auto simp: record_samples_def snd_for_each skip_def slot_samples_Returned)

lemma pod_samples_Returned:
  "snd (pod_samples now cs p) = Returned \<longleftrightarrow>
     (\<forall>c\<in>set cs. \<forall>info. Info c = Some info \<longrightarrow> UID p = PodUID c \<longrightarrow>
        ContainerName c \<in> set (SpecContainers p) \<longrightarrow>
        (\<forall>i. int i < DeviceNum info \<longrightarrow> 40 \<le> length (DeviceUUID info i)))"
  by (auto simp: pod_samples_def snd_for_each skip_def record_samples_Returned
           split: option.splits)

lemma container_samples_Returned:
  "snd (container_samples now pods cs) = Returned \<longleftrightarrow>
     (\<forall>p\<in>set pods. \<forall>c\<in>set cs. \<forall>info. Info c = Some info \<longrightarrow> UID p = PodUID c \<longrightarrow>
        ContainerName c \<in> set (SpecContainers p) \<longrightarrow>
        (\<forall>i. int i < DeviceNum info \<longrightarrow> 40 \<le> length (DeviceUUID info i)))"
  by (simp add: container_samples_def snd_for_each pod_samples_Returned)

lemma Collect_Returned_iff:
  "snd (Collect_metrics env) = Returned \<longleftrightarrow>
     (\<forall>p c info i. matched_slot env p c info i \<longrightarrow> 40 \<le> length (DeviceUUID info i))"
  unfolding Collect_snd container_samples_Returned matched_slot_def by blast

lemma record_samples_origin:
  assumes "s \<in> set (fst (record_samples now p c info))"
  shows "ContainerName c \<in> set (SpecContainers p) \<and>
         (\<exists>i. int i < DeviceNum info \<and> s \<in> set (fst (slot_samples now p (ContainerName c) info i)))"
proof -
  from for_each_mem [OF assms [unfolded record_samples_def]]
  obtain ctr where ctr: "ctr \<in> set (SpecContainers p)"
    and s: "s \<in> set (fst (if ctr \<noteq> ContainerName c then skip
              else for_each [0..<nat (DeviceNum info)] (slot_samples now p (ContainerName c) info)))"
    by blast
  from s have eq: "ctr = ContainerName c"
    by (cases "ctr = ContainerName c") (simp_all add: skip_def)
  with s have "s \<in> set (fst (for_each [0..<nat (DeviceNum info)]
                 (slot_samples now p (ContainerName c) info)))" by simp
  from for_each_mem [OF this] obtain i where "int i < DeviceNum info"
    and "s \<in> set (fst (slot_samples now p (ContainerName c) info i))"
    by (auto simp: zless_nat_eq_int_zless)
  with ctr eq show ?thesis by auto
qed

lemma pod_samples_origin:
  assumes "s \<in> set (fst (pod_samples now cs p))"
  shows "\<exists>c\<in>set cs. \<exists>info. Info c = Some info \<and> UID p = PodUID c \<and>
           s \<in> set (fst (record_samples now p c info))"
proof -
  from for_each_mem [OF assms [unfolded pod_samples_def]]
  obtain c where c: "c \<in> set cs"
    and s: "s \<in> set (fst (case Info c of None \<Rightarrow> skip
              | Some info \<Rightarrow> if UID p \<noteq> PodUID c then skip else record_samples now p c info))"
    by blast
  from s obtain info where "Info c = Some info" "UID p = PodUID c"
    "s \<in> set (fst (record_samples now p c info))"
    by (cases "Info c"; cases "UID p = PodUID c") (simp_all add: skip_def)
  with c show ?thesis by blast
qed

lemma container_samples_origin:
  assumes "s \<in> set (fst (container_samples now pods cs))"
  shows "\<exists>p\<in>set pods. \<exists>c\<in>set cs. \<exists>info i. Info c = Some info \<and> UID p = PodUID c \<and>
           ContainerName c \<in> set (SpecContainers p) \<and> int i < DeviceNum info \<and>
           s \<in> set (fst (slot_samples now p (ContainerName c) info i))"
proof -
  from for_each_mem [OF assms [unfolded container_samples_def]]
  obtain p where p: "p \<in> set pods" and "s \<in> set (fst (pod_samples now cs p))" by blast
  from pod_samples_origin [OF this(2)] obtain c info where c: "c \<in> set cs"
    and i: "Info c = Some info" "UID p = PodUID c"
    and "s \<in> set (fst (record_samples now p c info))" by blast
  from record_samples_origin [OF this(4)] p c i show ?thesis by blast
qed

lemma slot_block_emitted:
  assumes ret: "snd (container_samples now pods cs) = Returned"
    and p: "p \<in> set pods" and c: "c \<in> set cs" and info: "Info c = Some info"
    and uid: "UID p = PodUID c" and ctr: "ContainerName c \<in> set (SpecContainers p)"
    and i: "int i < DeviceNum info"
  shows "set (fst (slot_samples now p (ContainerName c) info i))
           \<subseteq> set (fst (container_samples now pods cs))"
proof -
  let ?slots = "for_each [0..<nat (DeviceNum info)] (slot_samples now p (ContainerName c) info)"
  from ret p have rp: "snd (pod_samples now cs p) = Returned"
    by (simp add: container_samples_def snd_for_each)
  from rp c info uid have rc: "snd (record_samples now p c info) = Returned"
    by (auto simp: pod_samples_def snd_for_each)
  from rc ctr have rs: "snd ?slots = Returned"
    by (auto simp: record_samples_def snd_for_each)
  from i have "i \<in> set [0..<nat (DeviceNum info)]" by simp
  from for_each_mem_Returned [OF rs this]
  have "set (fst (slot_samples now p (ContainerName c) info i)) \<subseteq> set (fst ?slots)" .
  also have "\<dots> \<subseteq> set (fst (record_samples now p c info))"
    using for_each_mem_Returned [OF rc [unfolded record_samples_def] ctr]
    by (simp add: record_samples_def)
  also have "\<dots> \<subseteq> set (fst (pod_samples now cs p))"
    using for_each_mem_Returned [OF rp [unfolded pod_samples_def] c] info uid
    by (simp add: pod_samples_def)
  also have "\<dots> \<subseteq> set (fst (container_samples now pods cs))"
    using for_each_mem_Returned [OF ret [unfolded container_samples_def] p]
    by (simp add: container_samples_def)
  finally show ?thesis .
qed

lemma matched_block_emitted:
  assumes "matched_slot env p c info i" and "snd (Collect_metrics env) = Returned"
  shows "set (fst (slot_samples (nowSec env) p (ContainerName c) info i))
           \<subseteq> set (fst (Collect_metrics env))"
proof -
  from assms(2) have "snd (container_samples (nowSec env) (fst (PodList env)) (ListContainers env))
      = Returned" by (simp add: Collect_snd)
  moreover from assms(1) have "p \<in> set (fst (PodList env))" "c \<in> set (ListContainers env)"
    "Info c = Some info" "UID p = PodUID c" "ContainerName c \<in> set (SpecContainers p)"
    "int i < DeviceNum info" by (simp_all add: matched_slot_def)
  ultimately have "set (fst (slot_samples (nowSec env) p (ContainerName c) info i))
      \<subseteq> set (fst (container_samples (nowSec env) (fst (PodList env)) (ListContainers env)))"
    by (rule slot_block_emitted)
  then show ?thesis by (auto simp: Collect_fst)
qed

lemma slot_samples_labels:
  assumes "s \<in> set (fst (slot_samples now p ctrName info i))"
  shows "per_container s" "label_of s ''podnamespace'' = Some (Namespace p)"
    "label_of s ''podname'' = Some (Name p)" "label_of s ''ctrname'' = Some ctrName"
    "label_of s ''vdeviceid'' = Some (Sprint i)"
    "label_of s ''deviceuuid'' = Some (take 40 (DeviceUUID info i))"
  using assms
  by (auto simp: slot_samples_def Let_def per_container_def label_of_def MustNewConstMetric_def
      desc_defs split: if_splits)

lemma device_samples_labels:
  assumes "s \<in> set (device_samples ii hdev)"
  shows "\<not> per_container s" "label_of s ''deviceidx'' = Some (Sprint ii)"
    "label_of s ''deviceuuid'' = Some (uuid_val hdev)"
    "sdesc s = hostGPUdesc \<or> sdesc s = hostGPUUtilizationdesc"
  using assms
  by (auto simp: device_samples_def Let_def per_container_def label_of_def MustNewConstMetric_def
      desc_defs split: if_splits)

lemma host_samples_mem:
  assumes "s \<in> set (host_samples env)"
  shows "\<exists>ii. int ii < fst (DeviceGetCount env) \<and> snd (DeviceGetCount env) = SUCCESS \<and>
           s \<in> set (device_samples ii (Device env ii))"
proof (cases "DeviceGetCount env")
  case (Pair devnum nvret)
  with assms show ?thesis
    by (auto simp: host_samples_def zless_nat_eq_int_zless split: if_splits)
qed

lemma host_samples_not_per_container: "s \<in> set (host_samples env) \<Longrightarrow> \<not> per_container s"
  using host_samples_mem device_samples_labels(1) by blast

subsection \<open>The join\<close>

lemma record_samples_no_ctr:
  "ContainerName c \<notin> set (SpecContainers p) \<Longrightarrow> record_samples now p c info = skip"
  unfolding record_samples_def by (rule for_each_all_skip) auto

lemma pod_samples_no_record: "\<not> has_record cs p \<Longrightarrow> pod_samples now cs p = skip"
  unfolding pod_samples_def
  by (rule for_each_all_skip)
     (auto simp: has_record_def list_ex_iff record_samples_no_ctr split: option.splits)

lemma container_samples_filter_pods:
  "container_samples now (filter (has_record cs) pods) cs = container_samples now pods cs"
  unfolding container_samples_def by (rule for_each_filter) (simp add: pod_samples_no_record)

lemma pod_samples_filter_records:
  assumes "p \<in> set pods"
  shows "pod_samples now (filter (has_pod pods) cs) p = pod_samples now cs p"
  unfolding pod_samples_def
proof (rule for_each_filter)
  fix c assume "c \<in> set cs" and "\<not> has_pod pods c"
  with assms have "UID p \<noteq> PodUID c \<or> ContainerName c \<notin> set (SpecContainers p)"
    by (auto simp: has_pod_def list_ex_iff)
  then show "(case Info c of None \<Rightarrow> skip
      | Some info \<Rightarrow> if UID p \<noteq> PodUID c then skip else record_samples now p c info) = skip"
    by (auto simp: record_samples_no_ctr split: option.splits)
qed

lemma container_samples_filter_records:
  "container_samples now pods (filter (has_pod pods) cs) = container_samples now pods cs"
  unfolding container_samples_def by (rule for_each_cong) (rule pod_samples_filter_records)

lemma Collect_per_container_origin:
  assumes "s \<in> set (fst (Collect_metrics env))" and "per_container s"
  shows "\<exists>p c info i. matched_slot env p c info i \<and>
           s \<in> set (fst (slot_samples (nowSec env) p (ContainerName c) info i))"
proof -
  from assms have "s \<in> set (fst (container_samples (nowSec env) (fst (PodList env))
      (ListContainers env)))"
    by (auto simp: Collect_fst dest: host_samples_not_per_container)
  from container_samples_origin [OF this] show ?thesis
    unfolding matched_slot_def by blast
qed

lemma sint_sub_nonneg:
  fixes now last :: "64 word"
  assumes "0 \<le> sint now" and "0 < sint last"
  shows "sint (now - last) = sint now - sint last"
proof -
  have "sint last < 2 ^ 63" "sint now < 2 ^ 63"
    using sint_lt [of last] sint_lt [of now] by simp_all
  with assms have "- (2 ^ 63) \<le> sint now - sint last" "sint now - sint last < 2 ^ 63"
    by simp_all
  then show ?thesis
    by (simp add: sint_word_ariths signed_take_bit_int_eq_self)
qed

lemmas eval_defs =
  scenario_defs scenario_dev_def orphan_pod_def orphan_record_def
  Collect_metrics_def host_samples_def device_samples_def container_samples_def pod_samples_def
  record_samples_def slot_samples_def skip_def Let_def Sprint.simps digit_def

subsection \<open>Host samples by device\<close>

lemma concat_single:
  "concat (map (\<lambda>jj. if jj = ii then g else []) [0..<n]) = (if ii < n then g else [])"
  by (induction n) auto

lemma device_metric_append [simp]:
  "device_metric d ii (xs @ ys) = device_metric d ii xs @ device_metric d ii ys"
  by (simp add: device_metric_def)

lemma device_metric_concat:
  "device_metric d ii (concat xss) = concat (map (device_metric d ii) xss)"
  by (induction xss) (simp_all add: device_metric_def)

lemma device_metric_device_samples:
  assumes "d = hostGPUdesc \<or> d = hostGPUUtilizationdesc"
  shows "device_metric d ii (device_samples jj hdev)
           = (if jj = ii then filter (\<lambda>s. sdesc s = d) (device_samples jj hdev) else [])"
proof (cases "jj = ii")
  case True
  have "device_metric d ii (device_samples ii hdev) = filter (\<lambda>s. sdesc s = d) (device_samples ii hdev)"
    unfolding device_metric_def
    by (rule filter_cong [OF refl]) (simp add: device_samples_labels(2))
  with True show ?thesis by simp
next
  case False
  have "device_metric d ii (device_samples jj hdev) = []"
    unfolding device_metric_def filter_empty_conv
    using False by (auto simp: device_samples_labels(2) dest: Sprint_inj)
  with False show ?thesis by simp
qed

lemma device_metric_host:
  assumes d: "d = hostGPUdesc \<or> d = hostGPUUtilizationdesc"
    and cnt: "DeviceGetCount env = (devnum, SUCCESS)"
  shows "device_metric d ii (host_samples env)
           = (if int ii < devnum then filter (\<lambda>s. sdesc s = d) (device_samples ii (Device env ii))
              else [])"
proof -
  have "device_metric d ii (host_samples env)
      = concat (map (\<lambda>jj. device_metric d ii (device_samples jj (Device env jj))) [0..<nat devnum])"
    using cnt by (simp add: host_samples_def device_metric_concat comp_def)
  also have "\<dots> = concat (map (\<lambda>jj. if jj = ii
        then filter (\<lambda>s. sdesc s = d) (device_samples ii (Device env ii)) else []) [0..<nat devnum])"
    by (rule arg_cong [where f = concat], rule map_cong [OF refl])
       (simp add: device_metric_device_samples [OF d])
  finally show ?thesis by (simp add: concat_single zless_nat_eq_int_zless)
qed

lemma device_metric_container:
  assumes "d = hostGPUdesc \<or> d = hostGPUUtilizationdesc"
  shows "device_metric d ii (fst (container_samples now pods cs)) = []"
proof -
  have "sdesc s \<noteq> d" if "s \<in> set (fst (container_samples now pods cs))" for s
  proof -
    from container_samples_origin [OF that] obtain p c info i
      where "c \<in> set cs"
        and "s \<in> set (fst (slot_samples now p (ContainerName c) info i))" by blast
    then have "per_container s" by (intro slot_samples_labels(1))
    with assms show ?thesis by (auto simp: per_container_def desc_defs)
  qed
  then show ?thesis by (auto simp: device_metric_def filter_empty_conv)
qed

lemma device_metric_Collect:
  assumes "d = hostGPUdesc \<or> d = hostGPUUtilizationdesc"
    and "DeviceGetCount env = (devnum, SUCCESS)"
  shows "device_metric d ii (fst (Collect_metrics env))
           = (if int ii < devnum then filter (\<lambda>s. sdesc s = d) (device_samples ii (Device env ii))
              else [])"
  by (simp add: Collect_fst device_metric_container [OF assms(1)] device_metric_host [OF assms])

lemma sint_eq_uint_small:
  fixes w :: "64 word"
  assumes "w < 2 ^ 63"
  shows "sint w = uint w"
proof -
  from assms have "uint w < 2 ^ 63" by (simp add: word_less_def)
  moreover have "- (2 ^ 63) \<le> uint w"
    by (rule order_trans [of _ 0]) simp_all
  ultimately show ?thesis
    by (simp add: sint_uint signed_take_bit_int_eq_self)
qed

lemma other_devices_unaffected:
  assumes "d = hostGPUdesc \<or> d = hostGPUUtilizationdesc" and "jj \<noteq> ii"
  shows "device_metric d jj (fst (Collect_metrics (env\<lparr>Device := (Device env)(ii := hdev)\<rparr>)))
           = device_metric d jj (fst (Collect_metrics env))"
proof (cases "DeviceGetCount env")
  case (Pair devnum nvret)
  show ?thesis
  proof (cases "nvret = SUCCESS")
    case True
    with Pair assms show ?thesis by (simp add: device_metric_Collect)
  next
    case False
    with Pair show ?thesis by (simp add: Collect_fst host_samples_def)
  qed
qed

subsection \<open>Refinement of the specified order\<close>

lemma refines_self: "refines e (fst e)"
  by (simp add: refines_def)

lemma refines_skip: "refines skip []"
  by (simp add: refines_def skip_def)

lemma refines_then_emit:
  assumes "refines a xs" and "refines b ys"
  shows "refines (then_emit a b) (xs @ ys)"
proof (cases "snd a")
  case Returned
  with assms show ?thesis by (simp add: refines_def then_emit_def)
next
  case Panicked
  with assms show ?thesis by (simp add: refines_def then_emit_def)
qed

lemma refines_for_each:
  "(\<And>x. x \<in> set xs \<Longrightarrow> refines (body x) (g x)) \<Longrightarrow>
     refines (for_each xs body) (concat (map g xs))"
  by (induction xs) (simp_all add: refines_skip refines_then_emit)

lemma refines_record:
  "refines (record_samples now p c info)
     (concat (map (\<lambda>ctr. if ctr = ContainerName c
        then concat (map (\<lambda>i. fst (slot_samples now p (ContainerName c) info i))
               [0..<nat (DeviceNum info)])
        else []) (SpecContainers p)))"
  unfolding record_samples_def
  by (rule refines_for_each) (simp add: refines_skip refines_for_each refines_self)

lemma refines_pod:
  "refines (pod_samples now cs p)
     (concat (map (\<lambda>c. concat (map (\<lambda>info. if UID p = PodUID c
        then concat (map (\<lambda>ctr. if ctr = ContainerName c
               then concat (map (\<lambda>i. fst (slot_samples now p (ContainerName c) info i))
                      [0..<nat (DeviceNum info)])
               else []) (SpecContainers p))
        else []) (case Info c of None \<Rightarrow> [] | Some info \<Rightarrow> [info]))) cs))"
  unfolding pod_samples_def
  by (rule refines_for_each) (simp add: refines_skip refines_record split: option.splits)

lemma refines_container:
  "refines (container_samples now pods cs) (ordered_container now pods cs)"
  unfolding container_samples_def ordered_container_def
  using refines_for_each [of pods "pod_samples now cs", OF refines_pod]
  by (simp cong: if_cong)

lemma ordered_host_eq: "ordered_host env = host_samples env"
  by (cases "DeviceGetCount env") (simp add: ordered_host_def host_samples_def)

lemma ordered_container_per_container:
  assumes "s \<in> set (ordered_container now pods cs)"
  shows "per_container s"
proof -
  from assms obtain p c info i
    where "c \<in> set cs" and "s \<in> set (fst (slot_samples now p (ContainerName c) info i))"
    by (auto simp: ordered_container_def split: option.splits if_splits)
  then show ?thesis by (intro slot_samples_labels(1))
qed

lemma device_samples_handle_ret:
  "device_samples ii (hdev\<lparr>handle_ret := x\<rparr>) = device_samples ii hdev"
  by (simp add: device_samples_def Let_def cong: if_cong)

subsection \<open>Label arity\<close>

text \<open>Every sample carries one value for each label of its descriptor.\<close>

lemma device_samples_arity:
  "s \<in> set (device_samples ii hdev) \<Longrightarrow>
     length (labelValues s) = length (variableLabels (sdesc s))"
  by (auto simp: device_samples_def Let_def MustNewConstMetric_def desc_defs split: if_splits)

lemma slot_samples_arity:
  "s \<in> set (fst (slot_samples now p ctrName info i)) \<Longrightarrow>
     length (labelValues s) = length (variableLabels (sdesc s))"
  by (auto simp: slot_samples_def Let_def MustNewConstMetric_def desc_defs split: if_splits)

lemma Collect_label_arity:
  assumes "s \<in> set (fst (Collect_metrics env))"
  shows "length (labelValues s) = length (variableLabels (sdesc s))"
proof -
  from assms consider "s \<in> set (host_samples env)"
    | "s \<in> set (fst (container_samples (nowSec env) (fst (PodList env)) (ListContainers env)))"
    by (auto simp: Collect_fst)
  then show ?thesis
  proof cases
    case 1
    then show ?thesis using host_samples_mem device_samples_arity by blast
  next
    case 2
    from container_samples_origin [OF this] show ?thesis using slot_samples_arity by blast
  qed
qed

subsection \<open>Errors and explicit samples\<close>

lemma sint_eq_uint_large:
  fixes w :: "64 word"
  assumes "2 ^ 63 \<le> w"
  shows "sint w = uint w - 2 ^ 64"
proof -
  from assms have lo: "2 ^ 63 \<le> uint w" by (simp add: word_le_def)
  have hi: "uint w < 2 ^ 64" using uint_bounded [of w] by simp
  from lo hi have "uint w div 2 ^ 63 = 1" by simp
  then have b: "bit (uint w) 63" by (simp add: bit_iff_odd)
  from hi have t: "take_bit 64 (uint w) = uint w" by (simp add: take_bit_int_eq_self)
  have "sint w = signed_take_bit 63 (uint w)" by (simp add: sint_uint)
  also have "\<dots> = take_bit (Suc 63) (uint w) - 2 ^ Suc 63 * of_bool (bit (uint w) 63)"
    by (rule signed_take_bit_eq_take_bit_minus)
  finally show ?thesis using b t by simp
qed

lemma Collect_with_errors: "Collect_metrics (with_errors env e r e' h) = Collect_metrics env"
proof -
  have "host_samples (with_errors env e r e' h) = host_samples env"
    by (cases "DeviceGetCount env")
       (simp add: with_errors_def host_samples_def device_samples_handle_ret)
  then show ?thesis by (simp add: Collect_metrics_def) (simp add: with_errors_def)
qed

lemma device_block_emitted:
  assumes "snd (DeviceGetCount env) = SUCCESS" and "int ii < fst (DeviceGetCount env)"
  shows "set (device_samples ii (Device env ii)) \<subseteq> set (fst (Collect_metrics env))"
proof (cases "DeviceGetCount env")
  case (Pair devnum nvret)
  with assms have "ii \<in> set [0..<nat devnum]" by (simp add: zless_nat_eq_int_zless)
  with Pair assms show ?thesis by (auto simp: Collect_fst host_samples_def)
qed

lemma slot_samples_four:
  assumes "40 \<le> length (DeviceUUID info i)"
  shows "set [MustNewConstMetric ctrvGPUdesc GaugeValue (uint (DeviceMemoryTotal info i))
                [Namespace p, Name p, ctrName, Sprint i, take 40 (DeviceUUID info i)],
              MustNewConstMetric ctrvGPUlimitdesc GaugeValue (uint (DeviceMemoryLimit info i))
                [Namespace p, Name p, ctrName, Sprint i, take 40 (DeviceUUID info i)],
              MustNewConstMetric ctrDeviceMemorydesc CounterValue (uint (DeviceMemoryTotal info i))
                [Namespace p, Name p, ctrName, Sprint i, take 40 (DeviceUUID info i),
                 Sprint (unat (DeviceMemoryContextSize info i)),
                 Sprint (unat (DeviceMemoryModuleSize info i)),
                 Sprint (unat (DeviceMemoryBufferSize info i)),
                 Sprint (unat (DeviceMemoryOffset info i))],
              MustNewConstMetric ctrDeviceUtilizationdesc GaugeValue (uint (DeviceSmUtil info i))
                [Namespace p, Name p, ctrName, Sprint i, take 40 (DeviceUUID info i)]]
           \<subseteq> set (fst (slot_samples now p ctrName info i))"
  using assms by (simp add: slot_samples_def Let_def)

section \<open>The claims\<close>

text \<open>
  Claim C1, at a failing input: one device whose UUID read fails (returning the empty
  string) while its utilization read succeeds. No \<open>HostGPUMemoryUsage\<close> sample is sent,
  but the \<open>HostCoreUtilization\<close> sample is, with the unread UUID as its label: the send
  at lines 182 to 187 is guarded by the status of the utilization read only.
\<close>

theorem C1_uuid_failure_keeps_utilization:
  "uuid_ret (Device (scenario_env (\<lambda>_. scenario_device SUCCESS (ERROR 999) SUCCESS) [] []) 0)
     = ERROR 999 \<and>
   Collect_metrics (scenario_env (\<lambda>_. scenario_device SUCCESS (ERROR 999) SUCCESS) [] []) =
     ([MustNewConstMetric hostGPUUtilizationdesc GaugeValue 30 [''0'', []]], Returned)"
  by (simp add: eval_defs)

text \<open>
  Claim C2, as the source has it. With a failed memory-info read and a successful UUID
  read, Collect sends a \<open>HostGPUMemoryUsage\<close> sample with the substitute value 0
  (\<^verbatim>\<open>memoryUsed := 0\<close> at line 159 stays as it is).
\<close>

theorem C2_memory_failure_counterexample:
  "memory_ret (Device (scenario_env (\<lambda>_. scenario_device (ERROR 999) SUCCESS SUCCESS) [] []) 0)
     = ERROR 999 \<and>
   Collect_metrics (scenario_env (\<lambda>_. scenario_device (ERROR 999) SUCCESS SUCCESS) [] []) =
     ([MustNewConstMetric hostGPUdesc GaugeValue 0 [''0'', ''GPU-aaaa''],
       MustNewConstMetric hostGPUUtilizationdesc GaugeValue 30 [''0'', ''GPU-aaaa'']],
      Returned)"
  by (simp add: eval_defs)

text \<open>
  Claim C2, amended. For an enumerated device, a failed memory-info read does not omit
  \<open>HostGPUMemoryUsage\<close>: the sample is sent with the value 0 when the UUID read
  succeeds, and omitted only when the UUID read fails. A failed utilization read omits
  \<open>HostCoreUtilization\<close> for that device and leaves its \<open>HostGPUMemoryUsage\<close> sample as
  the memory and UUID reads determine it.
\<close>

theorem C2_failed_reads:
  assumes "DeviceGetCount env = (devnum, SUCCESS)" and "int ii < devnum"
  shows "(memory_ret (Device env ii) \<noteq> SUCCESS \<longrightarrow>
            device_metric hostGPUdesc ii (fst (Collect_metrics env))
              = (if uuid_ret (Device env ii) = SUCCESS
                 then [MustNewConstMetric hostGPUdesc GaugeValue 0
                         [Sprint ii, uuid_val (Device env ii)]]
                 else [])) \<and>
         (util_ret (Device env ii) \<noteq> SUCCESS \<longrightarrow>
            device_metric hostGPUUtilizationdesc ii (fst (Collect_metrics env)) = [] \<and>
            device_metric hostGPUdesc ii (fst (Collect_metrics env))
              = (if uuid_ret (Device env ii) = SUCCESS
                 then [MustNewConstMetric hostGPUdesc GaugeValue
                         (if memory_ret (Device env ii) = SUCCESS
                          then sint (memory_Used (Device env ii)) else 0)
                         [Sprint ii, uuid_val (Device env ii)]]
                 else []))"
  using assms
  by (simp add: device_metric_Collect device_samples_def Let_def MustNewConstMetric_def desc_defs)

theorem C2_witness:
  "device_metric hostGPUdesc 0
     (fst (Collect_metrics (scenario_env (\<lambda>_. scenario_device (ERROR 999) SUCCESS SUCCESS) [] [])))
     = [MustNewConstMetric hostGPUdesc GaugeValue 0 [''0'', ''GPU-aaaa'']] \<and>
   device_metric hostGPUUtilizationdesc 0
     (fst (Collect_metrics (scenario_env (\<lambda>_. scenario_device SUCCESS SUCCESS (ERROR 999)) [] [])))
     = [] \<and>
   device_metric hostGPUdesc 0
     (fst (Collect_metrics (scenario_env (\<lambda>_. scenario_device SUCCESS SUCCESS (ERROR 999)) [] [])))
     = [MustNewConstMetric hostGPUdesc GaugeValue 4096 [''0'', ''GPU-aaaa'']]"
proof -
  let ?m = "scenario_env (\<lambda>_. scenario_device (ERROR 999) SUCCESS SUCCESS) [] []"
  let ?u = "scenario_env (\<lambda>_. scenario_device SUCCESS SUCCESS (ERROR 999)) [] []"
  have cnt: "DeviceGetCount ?m = (1, SUCCESS)" "DeviceGetCount ?u = (1, SUCCESS)"
    and i: "int 0 < 1"
    by (simp_all add: scenario_defs)
  have sel: "memory_ret (Device ?m 0) \<noteq> SUCCESS" "uuid_ret (Device ?m 0) = SUCCESS"
    "uuid_val (Device ?m 0) = ''GPU-aaaa''"
    "util_ret (Device ?u 0) \<noteq> SUCCESS" "uuid_ret (Device ?u 0) = SUCCESS"
    "memory_ret (Device ?u 0) = SUCCESS" "memory_Used (Device ?u 0) = 4096"
    "uuid_val (Device ?u 0) = ''GPU-aaaa''"
    by (simp_all add: scenario_defs)
  from C2_failed_reads [OF cnt(1) i] C2_failed_reads [OF cnt(2) i] sel
  show ?thesis by simp
qed

text \<open>
  Claim C3. Every per-container sample of Collect comes from a matched slot: a pod of the
  pod list and a record of the record list whose \<open>PodUID\<close> equals the pod's UID and whose
  \<open>ContainerName\<close> equals one of the pod's container names (string equality on both
  keys); the sample carries that pod's namespace and name and that container name. A
  pod without a matching record, and a record without a matching pod, yields nothing
  and no error: dropping it from its list leaves samples and final status as they are,
  and when no pod has a record Collect returns the host samples alone.
\<close>

theorem C3_inner_join:
  "(\<forall>s\<in>set (fst (Collect_metrics env)). per_container s \<longrightarrow>
      (\<exists>p c info i. matched_slot env p c info i \<and>
         s \<in> set (fst (slot_samples (nowSec env) p (ContainerName c) info i)) \<and>
         label_of s ''podnamespace'' = Some (Namespace p) \<and>
         label_of s ''podname'' = Some (Name p) \<and>
         label_of s ''ctrname'' = Some (ContainerName c))) \<and>
   Collect_metrics (env\<lparr>PodList :=
       (filter (has_record (ListContainers env)) (fst (PodList env)), snd (PodList env))\<rparr>)
     = Collect_metrics env \<and>
   Collect_metrics (env\<lparr>ListContainers :=
       filter (has_pod (fst (PodList env))) (ListContainers env)\<rparr>)
     = Collect_metrics env \<and>
   ((\<forall>p\<in>set (fst (PodList env)). \<not> has_record (ListContainers env) p) \<longrightarrow>
      Collect_metrics env = (host_samples env, Returned))"
proof (intro conjI ballI impI)
  fix s assume "s \<in> set (fst (Collect_metrics env))" and "per_container s"
  from Collect_per_container_origin [OF this] obtain p c info i
    where m: "matched_slot env p c info i"
      and s: "s \<in> set (fst (slot_samples (nowSec env) p (ContainerName c) info i))" by blast
  from m s slot_samples_labels [OF s]
  show "\<exists>p c info i. matched_slot env p c info i \<and>
         s \<in> set (fst (slot_samples (nowSec env) p (ContainerName c) info i)) \<and>
         label_of s ''podnamespace'' = Some (Namespace p) \<and>
         label_of s ''podname'' = Some (Name p) \<and>
         label_of s ''ctrname'' = Some (ContainerName c)" by blast
next
  show "Collect_metrics (env\<lparr>PodList :=
       (filter (has_record (ListContainers env)) (fst (PodList env)), snd (PodList env))\<rparr>)
     = Collect_metrics env"
    by (simp add: Collect_metrics_def container_samples_filter_pods)
next
  show "Collect_metrics (env\<lparr>ListContainers :=
       filter (has_pod (fst (PodList env))) (ListContainers env)\<rparr>)
     = Collect_metrics env"
    by (simp add: Collect_metrics_def container_samples_filter_records)
next
  assume "\<forall>p\<in>set (fst (PodList env)). \<not> has_record (ListContainers env) p"
  then have "container_samples (nowSec env) (fst (PodList env)) (ListContainers env) = skip"
    unfolding container_samples_def by (intro for_each_all_skip pod_samples_no_record) simp
  then show "Collect_metrics env = (host_samples env, Returned)"
    by (simp add: Collect_metrics_def skip_def)
qed

theorem C3_witness:
  "MustNewConstMetric ctrvGPUdesc GaugeValue 1024 [''ns'', ''pod-a'', ''c1'', ''0'', scenario_uuid]
     \<in> set (fst (Collect_metrics (scenario_env scenario_dev [orphan_pod, scenario_pod]
           [orphan_record, scenario_record scenario_uuid 0]))) \<and>
   per_container
     (MustNewConstMetric ctrvGPUdesc GaugeValue 1024 [''ns'', ''pod-a'', ''c1'', ''0'', scenario_uuid]) \<and>
   (\<exists>p c info i.
      matched_slot (scenario_env scenario_dev [orphan_pod, scenario_pod]
           [orphan_record, scenario_record scenario_uuid 0]) p c info i \<and>
      Name p = ''pod-a'' \<and> ContainerName c = ''c1'') \<and>
   Collect_metrics (scenario_env scenario_dev [scenario_pod]
       [orphan_record, scenario_record scenario_uuid 0])
     = Collect_metrics (scenario_env scenario_dev [orphan_pod, scenario_pod]
         [orphan_record, scenario_record scenario_uuid 0]) \<and>
   Collect_metrics (scenario_env scenario_dev [orphan_pod, scenario_pod]
       [scenario_record scenario_uuid 0])
     = Collect_metrics (scenario_env scenario_dev [orphan_pod, scenario_pod]
         [orphan_record, scenario_record scenario_uuid 0]) \<and>
   Collect_metrics (scenario_env scenario_dev [orphan_pod] [orphan_record])
     = (host_samples (scenario_env scenario_dev [orphan_pod] [orphan_record]), Returned)"
proof -
  let ?env = "scenario_env scenario_dev [orphan_pod, scenario_pod]
           [orphan_record, scenario_record scenario_uuid 0]"
  let ?s = "MustNewConstMetric ctrvGPUdesc GaugeValue 1024
              [''ns'', ''pod-a'', ''c1'', ''0'', scenario_uuid]"
  have mem: "?s \<in> set (fst (Collect_metrics ?env))"
    by (simp add: eval_defs)
  have pc: "per_container ?s"
    by (simp add: per_container_def MustNewConstMetric_def)
  have lab: "label_of ?s ''podname'' = Some ''pod-a''" "label_of ?s ''ctrname'' = Some ''c1''"
    by (simp_all add: label_of_def MustNewConstMetric_def desc_defs)
  have f1: "filter (has_record (ListContainers ?env)) (fst (PodList ?env)) = [scenario_pod]"
    by (simp add: has_record_def scenario_defs orphan_pod_def orphan_record_def)
  have f2: "filter (has_pod (fst (PodList ?env))) (ListContainers ?env)
      = [scenario_record scenario_uuid 0]"
    by (simp add: has_pod_def scenario_defs orphan_pod_def orphan_record_def)
  have none: "\<forall>p\<in>set (fst (PodList (scenario_env scenario_dev [orphan_pod] [orphan_record]))).
      \<not> has_record (ListContainers (scenario_env scenario_dev [orphan_pod] [orphan_record])) p"
    by (simp add: has_record_def scenario_defs orphan_pod_def orphan_record_def)
  note a = C3_inner_join [of ?env]
  note b = C3_inner_join [of "scenario_env scenario_dev [orphan_pod] [orphan_record]"]
  from a mem pc lab have "\<exists>p c info i. matched_slot ?env p c info i \<and>
      Name p = ''pod-a'' \<and> ContainerName c = ''c1''"
    by fastforce
  moreover from a f1 have "Collect_metrics (scenario_env scenario_dev [scenario_pod]
       [orphan_record, scenario_record scenario_uuid 0]) = Collect_metrics ?env"
    by (simp add: scenario_env_def)
  moreover from a f2 have "Collect_metrics (scenario_env scenario_dev [orphan_pod, scenario_pod]
       [scenario_record scenario_uuid 0]) = Collect_metrics ?env"
    by (simp add: scenario_env_def)
  moreover from b none have "Collect_metrics (scenario_env scenario_dev [orphan_pod] [orphan_record])
     = (host_samples (scenario_env scenario_dev [orphan_pod] [orphan_record]), Returned)"
    by blast
  ultimately show ?thesis using mem pc by blast
qed

text \<open>
  Claim C4, as the source has it. The slice \<^verbatim>\<open>DeviceUUID(i)[0:40]\<close> is not guarded: with a
  UUID shorter than 40 characters in a matched slot Collect panics, after the host
  samples have been sent.
\<close>

theorem C4_short_uuid_counterexample:
  "Collect_metrics (scenario_env scenario_dev [scenario_pod] [scenario_record ''GPU-short'' 0]) =
     ([MustNewConstMetric hostGPUdesc GaugeValue 4096 [''0'', ''GPU-aaaa''],
       MustNewConstMetric hostGPUUtilizationdesc GaugeValue 30 [''0'', ''GPU-aaaa'']],
      Panicked)"
  by (simp add: eval_defs)

text \<open>
  Claim C4, amended. For a matched slot whose UUID string has at least 40 characters,
  every sample of the slot carries as \<open>deviceuuid\<close> exactly the first 40 characters of
  that string; when Collect returns, every matched slot is of this kind and its samples
  are in the output. A matched slot with a shorter UUID makes Collect panic.
\<close>

theorem C4_uuid_label_first_40:
  assumes m: "matched_slot env p c info i"
  shows "(40 \<le> length (DeviceUUID info i) \<longrightarrow>
           fst (slot_samples (nowSec env) p (ContainerName c) info i) \<noteq> [] \<and>
           (\<forall>s\<in>set (fst (slot_samples (nowSec env) p (ContainerName c) info i)).
              label_of s ''deviceuuid'' = Some (take 40 (DeviceUUID info i)) \<and>
              length (take 40 (DeviceUUID info i)) = 40)) \<and>
         (snd (Collect_metrics env) = Returned \<longrightarrow>
           40 \<le> length (DeviceUUID info i) \<and>
           set (fst (slot_samples (nowSec env) p (ContainerName c) info i))
             \<subseteq> set (fst (Collect_metrics env))) \<and>
         (length (DeviceUUID info i) < 40 \<longrightarrow> snd (Collect_metrics env) = Panicked)"
proof (intro conjI impI ballI)
  assume "40 \<le> length (DeviceUUID info i)"
  then show "fst (slot_samples (nowSec env) p (ContainerName c) info i) \<noteq> []"
    by (simp add: slot_samples_def Let_def)
next
  fix s assume "s \<in> set (fst (slot_samples (nowSec env) p (ContainerName c) info i))"
  then show "label_of s ''deviceuuid'' = Some (take 40 (DeviceUUID info i))"
    by (rule slot_samples_labels)
next
  assume "40 \<le> length (DeviceUUID info i)"
  then show "length (take 40 (DeviceUUID info i)) = 40" by simp
next
  assume "snd (Collect_metrics env) = Returned"
  with m show "40 \<le> length (DeviceUUID info i)" by (simp add: Collect_Returned_iff)
next
  assume "snd (Collect_metrics env) = Returned"
  with m show "set (fst (slot_samples (nowSec env) p (ContainerName c) info i))
      \<subseteq> set (fst (Collect_metrics env))" by (rule matched_block_emitted)
next
  assume "length (DeviceUUID info i) < 40"
  with m have "snd (Collect_metrics env) \<noteq> Returned"
    unfolding Collect_Returned_iff by (metis not_less)
  then show "snd (Collect_metrics env) = Panicked" by (cases "snd (Collect_metrics env)") simp_all
qed

theorem C4_witness:
  "matched_slot (scenario_env scenario_dev [scenario_pod] [scenario_record scenario_uuid 0])
     scenario_pod (scenario_record scenario_uuid 0) (scenario_info scenario_uuid 0) 0 \<and>
   snd (Collect_metrics (scenario_env scenario_dev [scenario_pod]
          [scenario_record scenario_uuid 0])) = Returned \<and>
   list_all (\<lambda>s. label_of s ''deviceuuid'' = Some scenario_uuid)
     (fst (slot_samples 1700000000 scenario_pod ''c1'' (scenario_info scenario_uuid 0) 0)) \<and>
   set (fst (slot_samples 1700000000 scenario_pod ''c1'' (scenario_info scenario_uuid 0) 0))
     \<subseteq> set (fst (Collect_metrics (scenario_env scenario_dev [scenario_pod]
          [scenario_record scenario_uuid 0]))) \<and>
   fst (slot_samples 1700000000 scenario_pod ''c1'' (scenario_info scenario_uuid 0) 0) \<noteq> [] \<and>
   matched_slot (scenario_env scenario_dev [scenario_pod] [scenario_record ''GPU-short'' 0])
     scenario_pod (scenario_record ''GPU-short'' 0) (scenario_info ''GPU-short'' 0) 0 \<and>
   snd (Collect_metrics (scenario_env scenario_dev [scenario_pod]
          [scenario_record ''GPU-short'' 0])) = Panicked"
proof -
  let ?env = "scenario_env scenario_dev [scenario_pod] [scenario_record scenario_uuid 0]"
  let ?short = "scenario_env scenario_dev [scenario_pod] [scenario_record ''GPU-short'' 0]"
  have m: "matched_slot ?env scenario_pod (scenario_record scenario_uuid 0)
      (scenario_info scenario_uuid 0) 0"
    by (simp add: matched_slot_def scenario_defs)
  have m': "matched_slot ?short scenario_pod (scenario_record ''GPU-short'' 0)
      (scenario_info ''GPU-short'' 0) 0"
    by (simp add: matched_slot_def scenario_defs)
  have ret: "snd (Collect_metrics ?env) = Returned"
    by (simp add: eval_defs)
  have len: "40 \<le> length (DeviceUUID (scenario_info scenario_uuid 0) 0)"
    "take 40 (DeviceUUID (scenario_info scenario_uuid 0) 0) = scenario_uuid"
    "length (DeviceUUID (scenario_info ''GPU-short'' 0) 0) < 40"
    by (simp_all add: scenario_defs)
  have sel: "nowSec ?env = 1700000000" "ContainerName (scenario_record scenario_uuid 0) = ''c1''"
    by (simp_all add: scenario_defs)
  from C4_uuid_label_first_40 [OF m] ret len sel C4_uuid_label_first_40 [OF m'] m m'
  show ?thesis by (simp add: list_all_iff)
qed

text \<open>
  Claim C5. For a matched slot in a run of Collect that returns, the samples of the slot
  are in the output; when the last kernel time is 0 none of them is a
  \<open>Device_last_kernel_of_container\<close> sample; when it is greater than 0 exactly one is, with
  the value of \<^verbatim>\<open>nowSec - lastKernelTime\<close> (int64 subtraction), replaced by 0 when
  negative, so the value is never negative; for a clock that is not negative this is
  the larger of 0 and the difference of the two numbers.
\<close>

theorem C5_last_kernel_age:
  assumes m: "matched_slot env p c info i" and ret: "snd (Collect_metrics env) = Returned"
  shows "set (fst (slot_samples (nowSec env) p (ContainerName c) info i))
           \<subseteq> set (fst (Collect_metrics env)) \<and>
    (LastKernelTime info = 0 \<longrightarrow>
       filter (\<lambda>s. sdesc s = ctrDeviceLastKernelDesc)
         (fst (slot_samples (nowSec env) p (ContainerName c) info i)) = []) \<and>
    (0 < sint (LastKernelTime info) \<longrightarrow>
       (let lastSec = nowSec env - LastKernelTime info;
            v = (if sint lastSec < 0 then 0 else sint lastSec)
        in filter (\<lambda>s. sdesc s = ctrDeviceLastKernelDesc)
             (fst (slot_samples (nowSec env) p (ContainerName c) info i))
           = [MustNewConstMetric ctrDeviceLastKernelDesc GaugeValue v
                [Namespace p, Name p, ContainerName c, Sprint i, take 40 (DeviceUUID info i)]] \<and>
           0 \<le> v \<and>
           (0 \<le> sint (nowSec env) \<longrightarrow>
              v = max 0 (sint (nowSec env) - sint (LastKernelTime info)))))"
proof -
  from m ret have len: "40 \<le> length (DeviceUUID info i)"
    by (simp add: Collect_Returned_iff)
  have a: "set (fst (slot_samples (nowSec env) p (ContainerName c) info i))
           \<subseteq> set (fst (Collect_metrics env))"
    using m ret by (rule matched_block_emitted)
  have b: "LastKernelTime info = 0 \<Longrightarrow>
       filter (\<lambda>s. sdesc s = ctrDeviceLastKernelDesc)
         (fst (slot_samples (nowSec env) p (ContainerName c) info i)) = []"
    using len by (simp add: slot_samples_def Let_def MustNewConstMetric_def desc_defs)
  have c: "0 < sint (LastKernelTime info) \<Longrightarrow>
       filter (\<lambda>s. sdesc s = ctrDeviceLastKernelDesc)
             (fst (slot_samples (nowSec env) p (ContainerName c) info i))
           = [MustNewConstMetric ctrDeviceLastKernelDesc GaugeValue
                (if sint (nowSec env - LastKernelTime info) < 0 then 0
                 else sint (nowSec env - LastKernelTime info))
                [Namespace p, Name p, ContainerName c, Sprint i, take 40 (DeviceUUID info i)]]"
    using len by (simp add: slot_samples_def Let_def MustNewConstMetric_def desc_defs)
  have d: "0 < sint (LastKernelTime info) \<Longrightarrow> 0 \<le> sint (nowSec env) \<Longrightarrow>
      (if sint (nowSec env - LastKernelTime info) < 0 then 0
                 else sint (nowSec env - LastKernelTime info))
       = max 0 (sint (nowSec env) - sint (LastKernelTime info))"
    by (simp add: sint_sub_nonneg max_def)
  from a b c d show ?thesis by (simp add: Let_def)
qed

theorem C5_witness:
  "filter (\<lambda>s. sdesc s = ctrDeviceLastKernelDesc)
     (fst (slot_samples 1700000000 scenario_pod ''c1'' (scenario_info scenario_uuid 0) 0)) = [] \<and>
   filter (\<lambda>s. sdesc s = ctrDeviceLastKernelDesc)
     (fst (slot_samples 1700000000 scenario_pod ''c1'' (scenario_info scenario_uuid 1699999000) 0))
     = [MustNewConstMetric ctrDeviceLastKernelDesc GaugeValue 1000
          [''ns'', ''pod-a'', ''c1'', ''0'', scenario_uuid]] \<and>
   filter (\<lambda>s. sdesc s = ctrDeviceLastKernelDesc)
     (fst (slot_samples 1700000000 scenario_pod ''c1'' (scenario_info scenario_uuid 1700000100) 0))
     = [MustNewConstMetric ctrDeviceLastKernelDesc GaugeValue 0
          [''ns'', ''pod-a'', ''c1'', ''0'', scenario_uuid]] \<and>
   MustNewConstMetric ctrDeviceLastKernelDesc GaugeValue 1000
          [''ns'', ''pod-a'', ''c1'', ''0'', scenario_uuid]
     \<in> set (fst (Collect_metrics (scenario_env scenario_dev [scenario_pod]
          [scenario_record scenario_uuid 1699999000])))"
proof -
  let ?env = "\<lambda>t. scenario_env scenario_dev [scenario_pod] [scenario_record scenario_uuid t]"
  have m: "matched_slot (?env t) scenario_pod (scenario_record scenario_uuid t)
      (scenario_info scenario_uuid t) 0" for t
    by (simp add: matched_slot_def scenario_defs)
  have ret: "snd (Collect_metrics (?env t)) = Returned" for t
    by (simp add: Collect_Returned_iff matched_slot_def scenario_defs)
  have sel: "nowSec (?env t) = 1700000000" "ContainerName (scenario_record scenario_uuid t) = ''c1''"
    "LastKernelTime (scenario_info scenario_uuid t) = t" 
    "take 40 (DeviceUUID (scenario_info scenario_uuid t) 0) = scenario_uuid"
    "Namespace scenario_pod = ''ns''" "Name scenario_pod = ''pod-a''" for t
    by (simp_all add: scenario_defs)
  have t: "0 < sint (1699999000 :: 64 word)" "0 < sint (1700000100 :: 64 word)"
    "sint (1700000000 - 1699999000 :: 64 word) = 1000"
    "sint (1700000000 - 1700000100 :: 64 word) = - 100"
    by simp_all
  let ?blk = "fst (slot_samples 1700000000 scenario_pod ''c1''
      (scenario_info scenario_uuid 1699999000) 0)"
  let ?x = "MustNewConstMetric ctrDeviceLastKernelDesc GaugeValue 1000
          [''ns'', ''pod-a'', ''c1'', ''0'', scenario_uuid]"
  from C5_last_kernel_age [OF m ret, of 0] C5_last_kernel_age [OF m ret, of 1699999000]
    C5_last_kernel_age [OF m ret, of 1700000100] sel t
  have main: "filter (\<lambda>s. sdesc s = ctrDeviceLastKernelDesc)
     (fst (slot_samples 1700000000 scenario_pod ''c1'' (scenario_info scenario_uuid 0) 0)) = [] \<and>
   filter (\<lambda>s. sdesc s = ctrDeviceLastKernelDesc) ?blk = [?x] \<and>
   filter (\<lambda>s. sdesc s = ctrDeviceLastKernelDesc)
     (fst (slot_samples 1700000000 scenario_pod ''c1'' (scenario_info scenario_uuid 1700000100) 0))
     = [MustNewConstMetric ctrDeviceLastKernelDesc GaugeValue 0
          [''ns'', ''pod-a'', ''c1'', ''0'', scenario_uuid]] \<and>
   set ?blk \<subseteq> set (fst (Collect_metrics (?env 1699999000)))"
    by (simp add: Let_def)
  then have "?x \<in> set (filter (\<lambda>s. sdesc s = ctrDeviceLastKernelDesc) ?blk)" by simp
  then have "?x \<in> set ?blk" by (simp del: filter.simps)
  with main show ?thesis by blast
qed

text \<open>
  Claim C6, as the source has it. The value sent is \<^verbatim>\<open>int(memory.Used)\<close> (line 162), the
  uint64 read as a signed 64-bit integer: with both reads successful and a memory-used
  value of \<open>2 ^ 63\<close> the \<open>HostGPUMemoryUsage\<close> sample carries \<open>- 2 ^ 63\<close>, not that value.
\<close>

theorem C6_memory_wraps_counterexample:
  "memory_ret (Device (scenario_env
       (\<lambda>_. (scenario_device SUCCESS SUCCESS SUCCESS)\<lparr>memory_Used := 9223372036854775808\<rparr>)
       [] []) 0) = SUCCESS \<and>
   uuid_ret (Device (scenario_env
       (\<lambda>_. (scenario_device SUCCESS SUCCESS SUCCESS)\<lparr>memory_Used := 9223372036854775808\<rparr>)
       [] []) 0) = SUCCESS \<and>
   uint (memory_Used (Device (scenario_env
       (\<lambda>_. (scenario_device SUCCESS SUCCESS SUCCESS)\<lparr>memory_Used := 9223372036854775808\<rparr>)
       [] []) 0)) = 9223372036854775808 \<and>
   Collect_metrics (scenario_env
       (\<lambda>_. (scenario_device SUCCESS SUCCESS SUCCESS)\<lparr>memory_Used := 9223372036854775808\<rparr>)
       [] []) =
     ([MustNewConstMetric hostGPUdesc GaugeValue (- 9223372036854775808) [''0'', ''GPU-aaaa''],
       MustNewConstMetric hostGPUUtilizationdesc GaugeValue 30 [''0'', ''GPU-aaaa'']],
      Returned)"
  by (simp add: eval_defs)

text \<open>
  Claim C6, amended. For an enumerated device \<open>ii\<close> whose memory-info read and UUID read
  both succeed, with a memory-used value \<open>M\<close> below \<open>2 ^ 63\<close>, the \<open>HostGPUMemoryUsage\<close>
  samples of the output for that device are exactly one gauge sample with value \<open>M\<close>,
  labelled with the decimal numeral of \<open>ii\<close> (a string that reads back as \<open>ii\<close>) and the
  UUID. From \<open>2 ^ 63\<close> on the conversion wraps and the value is \<open>M - 2 ^ 64\<close>.
\<close>

theorem C6_host_memory_usage:
  assumes "DeviceGetCount env = (devnum, SUCCESS)" and "int ii < devnum"
    and "memory_ret (Device env ii) = SUCCESS" and "uuid_ret (Device env ii) = SUCCESS"
  shows "(memory_Used (Device env ii) < 2 ^ 63 \<longrightarrow>
            device_metric hostGPUdesc ii (fst (Collect_metrics env))
              = [MustNewConstMetric hostGPUdesc GaugeValue (uint (memory_Used (Device env ii)))
                   [Sprint ii, uuid_val (Device env ii)]]) \<and>
         (2 ^ 63 \<le> memory_Used (Device env ii) \<longrightarrow>
            device_metric hostGPUdesc ii (fst (Collect_metrics env))
              = [MustNewConstMetric hostGPUdesc GaugeValue
                   (uint (memory_Used (Device env ii)) - 2 ^ 64)
                   [Sprint ii, uuid_val (Device env ii)]]) \<and>
         decimal_value (Sprint ii) = ii"
proof -
  have "device_metric hostGPUdesc ii (fst (Collect_metrics env))
      = [MustNewConstMetric hostGPUdesc GaugeValue (sint (memory_Used (Device env ii)))
           [Sprint ii, uuid_val (Device env ii)]]"
    using assms
    by (simp add: device_metric_Collect device_samples_def Let_def MustNewConstMetric_def
        desc_defs)
  then show ?thesis
    by (simp add: sint_eq_uint_small sint_eq_uint_large decimal_value_Sprint)
qed

theorem C6_witness:
  "device_metric hostGPUdesc 0 (fst (Collect_metrics (scenario_env scenario_dev [scenario_pod]
       [scenario_record scenario_uuid 0])))
     = [MustNewConstMetric hostGPUdesc GaugeValue 4096 [''0'', ''GPU-aaaa'']] \<and>
   device_metric hostGPUdesc 0 (fst (Collect_metrics (scenario_env
       (\<lambda>_. (scenario_device SUCCESS SUCCESS SUCCESS)\<lparr>memory_Used := 9223372036854775808\<rparr>)
       [] [])))
     = [MustNewConstMetric hostGPUdesc GaugeValue (- 9223372036854775808) [''0'', ''GPU-aaaa'']]"
proof -
  let ?env = "scenario_env scenario_dev [scenario_pod] [scenario_record scenario_uuid 0]"
  let ?big = "scenario_env
       (\<lambda>_. (scenario_device SUCCESS SUCCESS SUCCESS)\<lparr>memory_Used := 9223372036854775808\<rparr>)
       [] []"
  have cnt: "DeviceGetCount ?env = (1, SUCCESS)" and i: "int 0 < 1"
    and mem: "memory_ret (Device ?env 0) = SUCCESS" and uuid: "uuid_ret (Device ?env 0) = SUCCESS"
    by (simp_all add: scenario_defs scenario_dev_def)
  have cnt': "DeviceGetCount ?big = (1, SUCCESS)"
    and mem': "memory_ret (Device ?big 0) = SUCCESS" and uuid': "uuid_ret (Device ?big 0) = SUCCESS"
    by (simp_all add: scenario_defs)
  have sel: "memory_Used (Device ?env 0) = 4096" "uuid_val (Device ?env 0) = ''GPU-aaaa''"
    "(4096 :: 64 word) < 2 ^ 63"
    "memory_Used (Device ?big 0) = 9223372036854775808" "uuid_val (Device ?big 0) = ''GPU-aaaa''"
    "(2 ^ 63 :: 64 word) \<le> 9223372036854775808"
    by (simp_all add: scenario_defs scenario_dev_def)
  from C6_host_memory_usage [OF cnt i mem uuid] C6_host_memory_usage [OF cnt' i mem' uuid'] sel
  show ?thesis by simp
qed

text \<open>
  Claim C7. The scenario of one pod \<open>p1\<close> (namespace \<open>ns\<close>, name \<open>pod-a\<close>, container
  \<open>c1\<close>) and one matching usage record with a single slot (a 40-character UUID, memory
  total 1024, memory limit 2048, SM utilization 55, last kernel time 0): after the host
  samples Collect sends exactly four per-container samples, with the values 1024, 2048,
  1024 and 55 and the labels \<open>(ns, pod-a, c1, 0, uuid)\<close>, and no last-kernel sample. The
  sample of \<open>Device_memory_desc_of_container\<close> carries the four size labels after the five
  common ones.
\<close>

theorem C7_concrete_scenario:
  assumes u: "length u = 40"
    and pods: "fst (PodList env) =
      [\<lparr>UID = ''p1'', Name = ''pod-a'', Namespace = ''ns'', Labels = ls, SpecContainers = [''c1'']\<rparr>]"
    and recs: "ListContainers env = [\<lparr>PodUID = ''p1'', ContainerName = ''c1'', Info = Some info\<rparr>]"
    and slot: "DeviceNum info = 1" "DeviceUUID info 0 = u" "DeviceMemoryTotal info 0 = 1024"
      "DeviceMemoryLimit info 0 = 2048" "DeviceSmUtil info 0 = 55" "LastKernelTime info = 0"
  shows "Collect_metrics env =
    (host_samples env @
     [MustNewConstMetric ctrvGPUdesc GaugeValue 1024 [''ns'', ''pod-a'', ''c1'', ''0'', u],
      MustNewConstMetric ctrvGPUlimitdesc GaugeValue 2048 [''ns'', ''pod-a'', ''c1'', ''0'', u],
      MustNewConstMetric ctrDeviceMemorydesc CounterValue 1024
        [''ns'', ''pod-a'', ''c1'', ''0'', u,
         Sprint (unat (DeviceMemoryContextSize info 0)), Sprint (unat (DeviceMemoryModuleSize info 0)),
         Sprint (unat (DeviceMemoryBufferSize info 0)), Sprint (unat (DeviceMemoryOffset info 0))],
      MustNewConstMetric ctrDeviceUtilizationdesc GaugeValue 55 [''ns'', ''pod-a'', ''c1'', ''0'', u]],
     Returned)"
  using assms
  by (simp add: Collect_metrics_def container_samples_def pod_samples_def record_samples_def
      slot_samples_def skip_def Let_def)

theorem C7_witness:
  "Collect_metrics (scenario_env (\<lambda>_. scenario_device SUCCESS SUCCESS SUCCESS) [scenario_pod]
       [scenario_record scenario_uuid 0]) =
    ([MustNewConstMetric hostGPUdesc GaugeValue 4096 [''0'', ''GPU-aaaa''],
      MustNewConstMetric hostGPUUtilizationdesc GaugeValue 30 [''0'', ''GPU-aaaa''],
      MustNewConstMetric ctrvGPUdesc GaugeValue 1024 [''ns'', ''pod-a'', ''c1'', ''0'', scenario_uuid],
      MustNewConstMetric ctrvGPUlimitdesc GaugeValue 2048 [''ns'', ''pod-a'', ''c1'', ''0'', scenario_uuid],
      MustNewConstMetric ctrDeviceMemorydesc CounterValue 1024
        [''ns'', ''pod-a'', ''c1'', ''0'', scenario_uuid, ''16'', ''32'', ''64'', ''0''],
      MustNewConstMetric ctrDeviceUtilizationdesc GaugeValue 55 [''ns'', ''pod-a'', ''c1'', ''0'', scenario_uuid]],
     Returned)"
  using C7_concrete_scenario [of scenario_uuid
      "scenario_env (\<lambda>_. scenario_device SUCCESS SUCCESS SUCCESS) [scenario_pod]
         [scenario_record scenario_uuid 0]" Map.empty "scenario_info scenario_uuid 0"]
  by (simp add: scenario_defs host_samples_def device_samples_def Let_def Sprint.simps digit_def)

text \<open>
  Claim C8, as the source has it. A failed pod listing is not treated as an empty pod
  set: the error is logged and the loop of line 200 ranges over the slice that came with
  it. When the lister hands back one pod together with an error, the four per-container
  samples of that pod are sent.
\<close>

theorem C8_pod_list_error_counterexample:
  "snd (PodList ((scenario_env scenario_dev [scenario_pod] [scenario_record scenario_uuid 0])
       \<lparr>PodList := ([scenario_pod], Some ''list failed'')\<rparr>)) = Some ''list failed'' \<and>
   Collect_metrics ((scenario_env scenario_dev [scenario_pod] [scenario_record scenario_uuid 0])
       \<lparr>PodList := ([scenario_pod], Some ''list failed'')\<rparr>) =
    ([MustNewConstMetric hostGPUdesc GaugeValue 4096 [''0'', ''GPU-aaaa''],
      MustNewConstMetric hostGPUUtilizationdesc GaugeValue 30 [''0'', ''GPU-aaaa''],
      MustNewConstMetric ctrvGPUdesc GaugeValue 1024 [''ns'', ''pod-a'', ''c1'', ''0'', scenario_uuid],
      MustNewConstMetric ctrvGPUlimitdesc GaugeValue 2048 [''ns'', ''pod-a'', ''c1'', ''0'', scenario_uuid],
      MustNewConstMetric ctrDeviceMemorydesc CounterValue 1024
        [''ns'', ''pod-a'', ''c1'', ''0'', scenario_uuid, ''16'', ''32'', ''64'', ''0''],
      MustNewConstMetric ctrDeviceUtilizationdesc GaugeValue 55 [''ns'', ''pod-a'', ''c1'', ''0'', scenario_uuid]],
     Returned)"
  by (simp add: eval_defs)

text \<open>
  Claim C8, amended. No error of a collaborator aborts Collect. Whatever the errors of
  \<^verbatim>\<open>Update\<close>, \<^verbatim>\<open>Init\<close>, \<^verbatim>\<open>PodLister.List\<close> and \<^verbatim>\<open>DeviceGetHandleByIndex\<close>, the
  run is the one without them: the host samples are all sent, so the devices are
  enumerated after a failed refresh, and every enumerated device has its
  \<open>HostGPUMemoryUsage\<close> sample when its UUID read succeeds and its \<open>HostCoreUtilization\<close>
  sample when its utilization read succeeds; Collect returns exactly when every matched
  slot has a UUID of at least 40 characters, and then the four samples of every matched
  slot of the record list as it stands are in the output, which is the host samples
  followed by the per-container samples in their order. After a failed pod listing
  Collect goes on with the pods the lister handed back: the pod set is empty, and the
  output the host samples alone, when it handed back none. After a failed device count
  the per-container part is sent all the same.
\<close>

theorem C8_errors_do_not_abort:
  "Collect_metrics (with_errors env e r e' h) = Collect_metrics env \<and>
   prefix (host_samples env) (fst (Collect_metrics (with_errors env e r e' h))) \<and>
   (\<forall>ii. snd (DeviceGetCount env) = SUCCESS \<longrightarrow> int ii < fst (DeviceGetCount env) \<longrightarrow>
      (uuid_ret (Device env ii) = SUCCESS \<longrightarrow>
         MustNewConstMetric hostGPUdesc GaugeValue
           (if memory_ret (Device env ii) = SUCCESS then sint (memory_Used (Device env ii)) else 0)
           [Sprint ii, uuid_val (Device env ii)]
         \<in> set (fst (Collect_metrics (with_errors env e r e' h)))) \<and>
      (util_ret (Device env ii) = SUCCESS \<longrightarrow>
         MustNewConstMetric hostGPUUtilizationdesc GaugeValue (uint (util_Gpu (Device env ii)))
           [Sprint ii, uuid_val (Device env ii)]
         \<in> set (fst (Collect_metrics (with_errors env e r e' h))))) \<and>
   (snd (Collect_metrics (with_errors env e r e' h)) = Returned \<longleftrightarrow>
      (\<forall>p c info i. matched_slot env p c info i \<longrightarrow> 40 \<le> length (DeviceUUID info i))) \<and>
   (\<forall>p c info i. matched_slot env p c info i \<longrightarrow>
      snd (Collect_metrics (with_errors env e r e' h)) = Returned \<longrightarrow>
      set [MustNewConstMetric ctrvGPUdesc GaugeValue (uint (DeviceMemoryTotal info i))
             [Namespace p, Name p, ContainerName c, Sprint i, take 40 (DeviceUUID info i)],
           MustNewConstMetric ctrvGPUlimitdesc GaugeValue (uint (DeviceMemoryLimit info i))
             [Namespace p, Name p, ContainerName c, Sprint i, take 40 (DeviceUUID info i)],
           MustNewConstMetric ctrDeviceMemorydesc CounterValue (uint (DeviceMemoryTotal info i))
             [Namespace p, Name p, ContainerName c, Sprint i, take 40 (DeviceUUID info i),
              Sprint (unat (DeviceMemoryContextSize info i)),
              Sprint (unat (DeviceMemoryModuleSize info i)),
              Sprint (unat (DeviceMemoryBufferSize info i)),
              Sprint (unat (DeviceMemoryOffset info i))],
           MustNewConstMetric ctrDeviceUtilizationdesc GaugeValue (uint (DeviceSmUtil info i))
             [Namespace p, Name p, ContainerName c, Sprint i, take 40 (DeviceUUID info i)]]
        \<subseteq> set (fst (Collect_metrics (with_errors env e r e' h)))) \<and>
   (snd (Collect_metrics (with_errors env e r e' h)) = Returned \<longrightarrow>
      fst (Collect_metrics (with_errors env e r e' h)) =
        ordered_host env @
        ordered_container (nowSec env) (fst (PodList env)) (ListContainers env)) \<and>
   (fst (PodList env) = [] \<longrightarrow>
      Collect_metrics (with_errors env e r e' h) = (host_samples env, Returned)) \<and>
   (snd (DeviceGetCount env) \<noteq> SUCCESS \<longrightarrow>
      Collect_metrics (with_errors env e r e' h) =
        container_samples (nowSec env) (fst (PodList env)) (ListContainers env))"
  unfolding Collect_with_errors
proof (intro conjI allI impI)
  show "Collect_metrics env = Collect_metrics env" ..
next
  show "prefix (host_samples env) (fst (Collect_metrics env))"
    by (simp add: Collect_fst)
next
  fix ii
  assume c: "snd (DeviceGetCount env) = SUCCESS" "int ii < fst (DeviceGetCount env)"
    and u: "uuid_ret (Device env ii) = SUCCESS"
  from u have "MustNewConstMetric hostGPUdesc GaugeValue
           (if memory_ret (Device env ii) = SUCCESS then sint (memory_Used (Device env ii)) else 0)
           [Sprint ii, uuid_val (Device env ii)] \<in> set (device_samples ii (Device env ii))"
    by (simp add: device_samples_def Let_def)
  with device_block_emitted [OF c]
  show "MustNewConstMetric hostGPUdesc GaugeValue
           (if memory_ret (Device env ii) = SUCCESS then sint (memory_Used (Device env ii)) else 0)
           [Sprint ii, uuid_val (Device env ii)] \<in> set (fst (Collect_metrics env))" by blast
next
  fix ii
  assume c: "snd (DeviceGetCount env) = SUCCESS" "int ii < fst (DeviceGetCount env)"
    and u: "util_ret (Device env ii) = SUCCESS"
  from u have "MustNewConstMetric hostGPUUtilizationdesc GaugeValue (uint (util_Gpu (Device env ii)))
           [Sprint ii, uuid_val (Device env ii)] \<in> set (device_samples ii (Device env ii))"
    by (simp add: device_samples_def Let_def)
  with device_block_emitted [OF c]
  show "MustNewConstMetric hostGPUUtilizationdesc GaugeValue (uint (util_Gpu (Device env ii)))
           [Sprint ii, uuid_val (Device env ii)] \<in> set (fst (Collect_metrics env))" by blast
next
  show "snd (Collect_metrics env) = Returned \<longleftrightarrow>
      (\<forall>p c info i. matched_slot env p c info i \<longrightarrow> 40 \<le> length (DeviceUUID info i))"
    by (rule Collect_Returned_iff)
next
  fix p c info i
  assume m: "matched_slot env p c info i" and ret: "snd (Collect_metrics env) = Returned"
  from m ret have "40 \<le> length (DeviceUUID info i)" by (simp add: Collect_Returned_iff)
  from slot_samples_four [OF this, of p "ContainerName c" "nowSec env"]
    matched_block_emitted [OF m ret]
  show "set [MustNewConstMetric ctrvGPUdesc GaugeValue (uint (DeviceMemoryTotal info i))
             [Namespace p, Name p, ContainerName c, Sprint i, take 40 (DeviceUUID info i)],
           MustNewConstMetric ctrvGPUlimitdesc GaugeValue (uint (DeviceMemoryLimit info i))
             [Namespace p, Name p, ContainerName c, Sprint i, take 40 (DeviceUUID info i)],
           MustNewConstMetric ctrDeviceMemorydesc CounterValue (uint (DeviceMemoryTotal info i))
             [Namespace p, Name p, ContainerName c, Sprint i, take 40 (DeviceUUID info i),
              Sprint (unat (DeviceMemoryContextSize info i)),
              Sprint (unat (DeviceMemoryModuleSize info i)),
              Sprint (unat (DeviceMemoryBufferSize info i)),
              Sprint (unat (DeviceMemoryOffset info i))],
           MustNewConstMetric ctrDeviceUtilizationdesc GaugeValue (uint (DeviceSmUtil info i))
             [Namespace p, Name p, ContainerName c, Sprint i, take 40 (DeviceUUID info i)]]
        \<subseteq> set (fst (Collect_metrics env))"
    by (rule subset_trans)
next
  assume ret: "snd (Collect_metrics env) = Returned"
  have "refines (container_samples (nowSec env) (fst (PodList env)) (ListContainers env))
      (ordered_container (nowSec env) (fst (PodList env)) (ListContainers env))"
    by (rule refines_container)
  with ret show "fst (Collect_metrics env) =
        ordered_host env @
        ordered_container (nowSec env) (fst (PodList env)) (ListContainers env)"
    by (simp add: Collect_fst Collect_snd ordered_host_eq refines_def)
next
  assume "fst (PodList env) = []"
  then show "Collect_metrics env = (host_samples env, Returned)"
    by (simp add: Collect_metrics_def container_samples_def skip_def)
next
  assume "snd (DeviceGetCount env) \<noteq> SUCCESS"
  then show "Collect_metrics env =
        container_samples (nowSec env) (fst (PodList env)) (ListContainers env)"
    by (cases "DeviceGetCount env") (simp add: Collect_metrics_def host_samples_def)
qed

theorem C8_witness:
  "Collect_metrics (with_errors
       (scenario_env scenario_dev [scenario_pod] [scenario_record scenario_uuid 0])
       (Some ''refresh failed'') (ERROR 999) (Some ''list failed'') (\<lambda>_. ERROR 999))
     = Collect_metrics (scenario_env scenario_dev [scenario_pod] [scenario_record scenario_uuid 0]) \<and>
   snd (Collect_metrics (with_errors
       (scenario_env scenario_dev [scenario_pod] [scenario_record scenario_uuid 0])
       (Some ''refresh failed'') (ERROR 999) (Some ''list failed'') (\<lambda>_. ERROR 999))) = Returned \<and>
   set [MustNewConstMetric hostGPUdesc GaugeValue 4096 [''0'', ''GPU-aaaa''],
        MustNewConstMetric hostGPUUtilizationdesc GaugeValue 30 [''0'', ''GPU-aaaa''],
        MustNewConstMetric ctrvGPUdesc GaugeValue 1024
          [''ns'', ''pod-a'', ''c1'', ''0'', scenario_uuid],
        MustNewConstMetric ctrvGPUlimitdesc GaugeValue 2048
          [''ns'', ''pod-a'', ''c1'', ''0'', scenario_uuid],
        MustNewConstMetric ctrDeviceMemorydesc CounterValue 1024
          [''ns'', ''pod-a'', ''c1'', ''0'', scenario_uuid, ''16'', ''32'', ''64'', ''0''],
        MustNewConstMetric ctrDeviceUtilizationdesc GaugeValue 55
          [''ns'', ''pod-a'', ''c1'', ''0'', scenario_uuid]]
     \<subseteq> set (fst (Collect_metrics (with_errors
       (scenario_env scenario_dev [scenario_pod] [scenario_record scenario_uuid 0])
       (Some ''refresh failed'') (ERROR 999) (Some ''list failed'') (\<lambda>_. ERROR 999)))) \<and>
   Collect_metrics (with_errors
       (scenario_env scenario_dev [] [scenario_record scenario_uuid 0])
       None SUCCESS (Some ''list failed'') (\<lambda>_. SUCCESS))
     = ([MustNewConstMetric hostGPUdesc GaugeValue 4096 [''0'', ''GPU-aaaa''],
         MustNewConstMetric hostGPUUtilizationdesc GaugeValue 30 [''0'', ''GPU-aaaa'']],
        Returned) \<and>
   Collect_metrics (with_errors
       ((scenario_env scenario_dev [scenario_pod] [scenario_record scenario_uuid 0])
          \<lparr>DeviceGetCount := (0, ERROR 999)\<rparr>)
       None SUCCESS None (\<lambda>_. SUCCESS))
     = container_samples 1700000000 [scenario_pod] [scenario_record scenario_uuid 0]"
proof -
  let ?env = "scenario_env scenario_dev [scenario_pod] [scenario_record scenario_uuid 0]"
  let ?nopods = "scenario_env scenario_dev [] [scenario_record scenario_uuid 0]"
  let ?nocount = "?env\<lparr>DeviceGetCount := (0, ERROR 999)\<rparr>"
  let ?info = "scenario_info scenario_uuid 0"
  note a = C8_errors_do_not_abort [where env = ?env and e = "Some ''refresh failed''"
      and r = "ERROR 999" and e' = "Some ''list failed''" and h = "\<lambda>_. ERROR 999"]
  note b = C8_errors_do_not_abort [where env = ?nopods and e = None and r = SUCCESS
      and e' = "Some ''list failed''" and h = "\<lambda>_. SUCCESS"]
  note c = C8_errors_do_not_abort [where env = ?nocount and e = None and r = SUCCESS
      and e' = None and h = "\<lambda>_. SUCCESS"]
  have cnt: "snd (DeviceGetCount ?env) = SUCCESS" "int 0 < fst (DeviceGetCount ?env)"
    "uuid_ret (Device ?env 0) = SUCCESS" "util_ret (Device ?env 0) = SUCCESS"
    "memory_ret (Device ?env 0) = SUCCESS" "sint (memory_Used (Device ?env 0)) = 4096"
    "uint (util_Gpu (Device ?env 0)) = 30" "uuid_val (Device ?env 0) = ''GPU-aaaa''"
    by (simp_all add: scenario_defs scenario_dev_def)
  have m: "matched_slot ?env scenario_pod (scenario_record scenario_uuid 0) ?info 0"
    by (simp add: matched_slot_def scenario_defs)
  have all: "\<forall>p c info i. matched_slot ?env p c info i \<longrightarrow> 40 \<le> length (DeviceUUID info i)"
    by (auto simp: matched_slot_def scenario_defs)
  have sel: "Namespace scenario_pod = ''ns''" "Name scenario_pod = ''pod-a''"
    "ContainerName (scenario_record scenario_uuid 0) = ''c1''"
    "take 40 (DeviceUUID ?info 0) = scenario_uuid"
    "uint (DeviceMemoryTotal ?info 0) = 1024" "uint (DeviceMemoryLimit ?info 0) = 2048"
    "uint (DeviceSmUtil ?info 0) = 55"
    "Sprint (unat (DeviceMemoryContextSize ?info 0)) = ''16''"
    "Sprint (unat (DeviceMemoryModuleSize ?info 0)) = ''32''"
    "Sprint (unat (DeviceMemoryBufferSize ?info 0)) = ''64''"
    "Sprint (unat (DeviceMemoryOffset ?info 0)) = ''0''"
    by (simp_all add: scenario_defs Sprint.simps digit_def)
  note a1 = a [THEN conjunct1]
  note a3 = a [THEN conjunct2, THEN conjunct2, THEN conjunct1, rule_format, OF cnt(1) cnt(2)]
  note a4 = a [THEN conjunct2, THEN conjunct2, THEN conjunct2, THEN conjunct1]
  note a5 = a [THEN conjunct2, THEN conjunct2, THEN conjunct2, THEN conjunct2, THEN conjunct1,
      rule_format, OF m]
  from a1 have 1: "Collect_metrics (with_errors ?env (Some ''refresh failed'') (ERROR 999)
      (Some ''list failed'') (\<lambda>_. ERROR 999)) = Collect_metrics ?env" .
  from a4 all have 2: "snd (Collect_metrics (with_errors ?env (Some ''refresh failed'') (ERROR 999)
      (Some ''list failed'') (\<lambda>_. ERROR 999))) = Returned" by (rule iffD2)
  from a3 cnt have 3: "MustNewConstMetric hostGPUdesc GaugeValue 4096 [''0'', ''GPU-aaaa'']
      \<in> set (fst (Collect_metrics (with_errors ?env (Some ''refresh failed'') (ERROR 999)
      (Some ''list failed'') (\<lambda>_. ERROR 999))))"
    by simp
  from a3 cnt have 4: "MustNewConstMetric hostGPUUtilizationdesc GaugeValue 30 [''0'', ''GPU-aaaa'']
      \<in> set (fst (Collect_metrics (with_errors ?env (Some ''refresh failed'') (ERROR 999)
      (Some ''list failed'') (\<lambda>_. ERROR 999))))"
    by simp
  from a5 [OF 2] sel have 5: "set [MustNewConstMetric ctrvGPUdesc GaugeValue 1024
          [''ns'', ''pod-a'', ''c1'', ''0'', scenario_uuid],
        MustNewConstMetric ctrvGPUlimitdesc GaugeValue 2048
          [''ns'', ''pod-a'', ''c1'', ''0'', scenario_uuid],
        MustNewConstMetric ctrDeviceMemorydesc CounterValue 1024
          [''ns'', ''pod-a'', ''c1'', ''0'', scenario_uuid, ''16'', ''32'', ''64'', ''0''],
        MustNewConstMetric ctrDeviceUtilizationdesc GaugeValue 55
          [''ns'', ''pod-a'', ''c1'', ''0'', scenario_uuid]]
     \<subseteq> set (fst (Collect_metrics (with_errors ?env (Some ''refresh failed'') (ERROR 999)
      (Some ''list failed'') (\<lambda>_. ERROR 999))))" by simp
  have np: "fst (PodList ?nopods) = []" by (simp add: scenario_env_def)
  have h: "host_samples ?nopods =
      [MustNewConstMetric hostGPUdesc GaugeValue 4096 [''0'', ''GPU-aaaa''],
       MustNewConstMetric hostGPUUtilizationdesc GaugeValue 30 [''0'', ''GPU-aaaa'']]"
    by (simp add: host_samples_def device_samples_def Let_def scenario_defs scenario_dev_def)
  note b7 = b [THEN conjunct2, THEN conjunct2, THEN conjunct2, THEN conjunct2, THEN conjunct2,
      THEN conjunct2, THEN conjunct1, rule_format, OF np]
  from b7 h have 6: "Collect_metrics (with_errors ?nopods None SUCCESS (Some ''list failed'')
      (\<lambda>_. SUCCESS)) =
      ([MustNewConstMetric hostGPUdesc GaugeValue 4096 [''0'', ''GPU-aaaa''],
        MustNewConstMetric hostGPUUtilizationdesc GaugeValue 30 [''0'', ''GPU-aaaa'']], Returned)"
    by simp
  have nc: "snd (DeviceGetCount ?nocount) \<noteq> SUCCESS" "nowSec ?nocount = 1700000000"
    "fst (PodList ?nocount) = [scenario_pod]"
    "ListContainers ?nocount = [scenario_record scenario_uuid 0]"
    by (simp_all add: scenario_env_def)
  note c8 = c [THEN conjunct2, THEN conjunct2, THEN conjunct2, THEN conjunct2, THEN conjunct2,
      THEN conjunct2, THEN conjunct2, rule_format, OF nc(1)]
  from c8 nc have 7: "Collect_metrics (with_errors ?nocount None SUCCESS None (\<lambda>_. SUCCESS))
      = container_samples 1700000000 [scenario_pod] [scenario_record scenario_uuid 0]"
    by simp
  from 1 2 3 4 5 6 7 show ?thesis by simp
qed

text \<open>
  Claim C9. Within one call the samples come in the order device, pod, container, slot:
  the host samples, device after device in ascending index, come first and are all
  sent; what follows is sent in the order pod (pod-list order), record and container,
  slot (ascending), and is all of it when Collect returns. No host sample is a
  per-container sample and every sample of the second part is one, so every host
  sample precedes every per-container sample.
\<close>

theorem C9_emission_order:
  "prefix (ordered_host env) (fst (Collect_metrics env)) \<and>
   prefix (fst (Collect_metrics env))
     (ordered_host env @
      ordered_container (nowSec env) (fst (PodList env)) (ListContainers env)) \<and>
   (snd (Collect_metrics env) = Returned \<longrightarrow>
      fst (Collect_metrics env) =
        ordered_host env @
        ordered_container (nowSec env) (fst (PodList env)) (ListContainers env)) \<and>
   (\<forall>s\<in>set (ordered_host env). \<not> per_container s) \<and>
   (\<forall>s\<in>set (ordered_container (nowSec env) (fst (PodList env)) (ListContainers env)).
      per_container s)"
proof -
  have r: "refines (container_samples (nowSec env) (fst (PodList env)) (ListContainers env))
      (ordered_container (nowSec env) (fst (PodList env)) (ListContainers env))"
    by (rule refines_container)
  have "prefix (ordered_host env) (fst (Collect_metrics env))"
    by (simp add: Collect_fst ordered_host_eq)
  moreover from r have "prefix (fst (Collect_metrics env))
     (ordered_host env @
      ordered_container (nowSec env) (fst (PodList env)) (ListContainers env))"
    by (simp add: Collect_fst ordered_host_eq refines_def)
  moreover from r have "snd (Collect_metrics env) = Returned \<longrightarrow>
      fst (Collect_metrics env) =
        ordered_host env @
        ordered_container (nowSec env) (fst (PodList env)) (ListContainers env)"
    by (simp add: Collect_fst Collect_snd ordered_host_eq refines_def)
  moreover have "\<forall>s\<in>set (ordered_host env). \<not> per_container s"
    by (simp add: ordered_host_eq host_samples_not_per_container)
  moreover have "\<forall>s\<in>set (ordered_container (nowSec env) (fst (PodList env))
      (ListContainers env)). per_container s"
    by (simp add: ordered_container_per_container)
  ultimately show ?thesis by blast
qed

theorem C9_witness:
  "snd (Collect_metrics order_env) = Returned \<and>
   remdups_adj (map order_key (fst (Collect_metrics order_env))) =
     [(Some ''0'', None, None), (Some ''1'', None, None),
      (None, Some ''pod-b'', Some ''0''),
      (None, Some ''pod-a'', Some ''0''), (None, Some ''pod-a'', Some ''1'')]"
proof -
  have ret: "snd (Collect_metrics order_env) = Returned"
    by (auto simp: Collect_Returned_iff matched_slot_def order_env_def two_slot_record_def
        second_record_def scenario_defs orphan_pod_def)
  have up: "[0..<2] = [0, 1]" by (simp add: upt_rec)
  have h: "map order_key (ordered_host order_env) =
      [(Some ''0'', None, None), (Some ''0'', None, None),
       (Some ''1'', None, None), (Some ''1'', None, None)]"
    by (simp add: ordered_host_def order_env_def scenario_defs scenario_dev_def up
        device_samples_def Let_def order_key_def label_of_def MustNewConstMetric_def desc_defs
        Sprint.simps digit_def)
  have c: "map order_key (ordered_container (nowSec order_env) (fst (PodList order_env))
        (ListContainers order_env)) =
      replicate 4 (None, Some ''pod-b'', Some ''0'') @
      replicate 4 (None, Some ''pod-a'', Some ''0'') @
      replicate 4 (None, Some ''pod-a'', Some ''1'')"
    by (simp add: ordered_container_def order_env_def scenario_defs scenario_dev_def up
        two_slot_record_def second_record_def orphan_pod_def
        slot_samples_def Let_def order_key_def label_of_def MustNewConstMetric_def desc_defs
        Sprint.simps digit_def numeral_eq_Suc)
  from C9_emission_order [of order_env] ret
  have "fst (Collect_metrics order_env) = ordered_host order_env @
      ordered_container (nowSec order_env) (fst (PodList order_env)) (ListContainers order_env)"
    by blast
  with ret h c show ?thesis by (simp add: numeral_eq_Suc)
qed

text \<open>
  Claim C10. A usage record whose \<open>Info\<close> is nil contributes nothing, also when its
  \<open>(PodUID, ContainerName)\<close> pair matches a listed pod: Collect sends the same samples and
  ends the same way as on the record list without that record, so the records after it
  are processed as usual.
\<close>

theorem C10_nil_info_skipped:
  assumes "Info c = None" and "ListContainers env = before @ c # after"
  shows "Collect_metrics env = Collect_metrics (env\<lparr>ListContainers := before @ after\<rparr>)"
  using assms
  by (simp add: Collect_metrics_def container_samples_def pod_samples_nil_info)

theorem C10_witness:
  "Collect_metrics (scenario_env scenario_dev [scenario_pod]
       [\<lparr>PodUID = ''p1'', ContainerName = ''c1'', Info = None\<rparr>,
        scenario_record scenario_uuid 0])
   = Collect_metrics (scenario_env scenario_dev [scenario_pod]
       [scenario_record scenario_uuid 0])"
proof -
  let ?nil = "\<lparr>PodUID = ''p1'', ContainerName = ''c1'', Info = None\<rparr>"
  let ?env = "scenario_env scenario_dev [scenario_pod] [?nil, scenario_record scenario_uuid 0]"
  have nil: "Info ?nil = None" by simp
  have recs: "ListContainers ?env = [] @ ?nil # [scenario_record scenario_uuid 0]"
    by (simp add: scenario_env_def)
  from C10_nil_info_skipped [OF nil recs] show ?thesis
    by (simp add: scenario_env_def)
qed

end
